theory Spec2Isabelle
  imports
    Main
    "HOL-Library.Sublist"
    "HOL-Library.Product_Lexorder"
    "HOL-Library.List_Lexorder"
    "HOL-Library.Multiset"
begin

section \<open>Values handed from SQLite to Python\<close>

text \<open>
  The scripts (\<^verbatim>\<open>check_db.py\<close>, \<^verbatim>\<open>debug_question.py\<close>,
  \<^verbatim>\<open>Golden/Golden 24/check_leadership_db.py\<close> and
  \<^verbatim>\<open>Golden/Golden 24/search_question.py\<close>) read a SQLite file through Python's
  \<^verbatim>\<open>sqlite3\<close> module. A Python \<^verbatim>\<open>str\<close> is a sequence of Unicode code points, so text
  is a list of code points (\<open>nat\<close>), not of bytes. A cell of a table is dynamically typed:
  NULL, INTEGER or TEXT, which Python receives as \<^verbatim>\<open>None\<close>, \<^verbatim>\<open>int\<close> and \<^verbatim>\<open>str\<close>.
  The storage classes REAL and BLOB are not part of this model.
\<close>

type_synonym py_str = "nat list"

definition lit :: "string \<Rightarrow> py_str" where
  "lit s = map of_char s"

datatype sql_value = SqlNull | SqlInt int | SqlText py_str

text \<open>The exceptions the scripts can meet; each carries its message.\<close>

datatype py_error =
    OperationalError string
  | DatabaseError string
  | TypeError string

section \<open>The storage layer\<close>

text \<open>
  A table has the text of its \<^verbatim>\<open>CREATE TABLE\<close> statement (the \<^verbatim>\<open>sql\<close> column of
  \<^verbatim>\<open>sqlite_master\<close>), its column names and its rows in storage (rowid) order. A database
  is the list of its tables in the order of \<^verbatim>\<open>sqlite_master\<close>.
\<close>

type_synonym row = "sql_value list"

record table =
  tbl_sql :: py_str
  columns :: "string list"
  rows :: "row list"

record database =
  tables :: "(string \<times> table) list"

definition empty_database :: database where
  "empty_database = \<lparr>tables = []\<rparr>"

text \<open>
  What a connection is attached to: a database, or a file that is not a database
  (\<^verbatim>\<open>sqlite3.connect\<close> succeeds on such a file, every statement then raises
  \<^verbatim>\<open>DatabaseError\<close>).
\<close>

datatype handle = Bank database | NotADatabase

definition opened :: "handle \<Rightarrow> py_error + database" where
  "opened h = (case h of
      Bank db \<Rightarrow> Inr db
    | NotADatabase \<Rightarrow> Inl (DatabaseError ''file is not a database''))"

text \<open>Name resolution of a statement: the table of the FROM clause first, then columns.\<close>

definition from_table :: "handle \<Rightarrow> string \<Rightarrow> py_error + table" where
  "from_table h name = (case opened h of
      Inl e \<Rightarrow> Inl e
    | Inr db \<Rightarrow> (case map_of (tables db) name of
        None \<Rightarrow> Inl (OperationalError (''no such table: '' @ name))
      | Some t \<Rightarrow> Inr t))"

fun index_of :: "string \<Rightarrow> string list \<Rightarrow> nat option" where
  "index_of c [] = None"
| "index_of c (d # ds) =
     (if c = d then Some 0 else map_option Suc (index_of c ds))"

definition column :: "table \<Rightarrow> string \<Rightarrow> py_error + nat" where
  "column t c = (case index_of c (columns t) of
      None \<Rightarrow> Inl (OperationalError (''no such column: '' @ c))
    | Some i \<Rightarrow> Inr i)"

text \<open>
  The order of SQLite's comparisons: NULL, then integers by value, then text by its
  code points (the BINARY collation). The key is ordered lexicographically.
\<close>

fun sql_key :: "sql_value \<Rightarrow> nat \<times> int \<times> nat list" where
  "sql_key SqlNull = (0, 0, [])"
| "sql_key (SqlInt i) = (1, i, [])"
| "sql_key (SqlText t) = (2, 0, t)"

text \<open>
  \<^verbatim>\<open>WHERE col = v\<close> for a literal or a bound parameter \<open>v\<close>: NULL is equal to
  nothing, and a value of one storage class is never equal to one of another (the key
  columns hold integers, as the schema says, so no affinity conversion takes place).
\<close>

definition sql_equals :: "sql_value \<Rightarrow> sql_value \<Rightarrow> bool" where
  "sql_equals a b = (a \<noteq> SqlNull \<and> a = b)"

text \<open>\<^verbatim>\<open>SELECT DISTINCT\<close>: a value is kept the first time the scan meets it.\<close>

fun uniq :: "'a list \<Rightarrow> 'a list \<Rightarrow> 'a list" where
  "uniq seen [] = []"
| "uniq seen (x # xs) =
     (if x \<in> set seen then uniq seen xs else x # uniq (x # seen) xs)"

subsection \<open>LIKE\<close>

text \<open>
  SQLite's LIKE without ESCAPE: \<^verbatim>\<open>%\<close> (37) matches any run of characters, \<^verbatim>\<open>_\<close> (95)
  exactly one, any other character itself, ASCII letters without regard to case.
  An integer operand is compared as its decimal text; NULL matches nothing.
\<close>

definition ascii_lower :: "nat \<Rightarrow> nat" where
  "ascii_lower c = (if 65 \<le> c \<and> c \<le> 90 then c + 32 else c)"

fun like :: "py_str \<Rightarrow> py_str \<Rightarrow> bool" where
  "like [] [] = True"
| "like [] (c # s) = False"
| "like (p # ps) [] = (p = 37 \<and> like ps [])"
| "like (p # ps) (c # s) =
     (if p = 37 then like ps (c # s) \<or> like (p # ps) s
      else (p = 95 \<or> ascii_lower p = ascii_lower c) \<and> like ps s)"

function digits :: "nat \<Rightarrow> py_str" where
  "digits n = (if n < 10 then [48 + n] else digits (n div 10) @ [48 + n mod 10])"
  by pat_completeness auto
termination
  by (relation "measure id") auto

definition decimal :: "int \<Rightarrow> py_str" where
  "decimal i = (if i < 0 then 45 # digits (nat (- i)) else digits (nat i))"

fun as_text :: "sql_value \<Rightarrow> py_str option" where
  "as_text SqlNull = None"
| "as_text (SqlInt i) = Some (decimal i)"
| "as_text (SqlText t) = Some t"

definition sql_like :: "sql_value \<Rightarrow> sql_value \<Rightarrow> bool" where
  "sql_like v pat = (case (as_text v, as_text pat) of
      (Some s, Some p) \<Rightarrow> like p s
    | _ \<Rightarrow> False)"

text \<open>
  A double-quoted token is an identifier first: it names a column when the table has
  one of that name, and is a string literal otherwise.
\<close>

definition double_quoted :: "table \<Rightarrow> string \<Rightarrow> row \<Rightarrow> sql_value" where
  "double_quoted t s r = (case index_of s (columns t) of
      Some i \<Rightarrow> r ! i
    | None \<Rightarrow> SqlText (lit s))"

subsection \<open>The statements of the scripts\<close>

text \<open>\<^verbatim>\<open>SELECT sql FROM sqlite_master WHERE type='table';\<close>\<close>

definition describe_schema :: "handle \<Rightarrow> py_error + sql_value list" where
  "describe_schema h = (case opened h of
      Inl e \<Rightarrow> Inl e
    | Inr db \<Rightarrow> Inr (map (\<lambda>(n, t). SqlText (tbl_sql t)) (tables db)))"

text \<open>\<^verbatim>\<open>SELECT DISTINCT <field> FROM questions;\<close>\<close>

definition enumerate_distinct :: "handle \<Rightarrow> string \<Rightarrow> py_error + sql_value list" where
  "enumerate_distinct h field = (case from_table h ''questions'' of
      Inl e \<Rightarrow> Inl e
    | Inr t \<Rightarrow> (case column t field of
        Inl e \<Rightarrow> Inl e
      | Inr i \<Rightarrow> Inr (uniq [] (map (\<lambda>r. r ! i) (rows t)))))"

text \<open>
  \<^verbatim>\<open>SELECT question_type, COUNT(*) FROM questions GROUP BY question_type;\<close>
  One group per distinct value (NULL is a group of its own), in ascending order.
\<close>

definition count_by_type :: "handle \<Rightarrow> py_error + (sql_value \<times> int) list" where
  "count_by_type h = (case from_table h ''questions'' of
      Inl e \<Rightarrow> Inl e
    | Inr t \<Rightarrow> (case column t ''question_type'' of
        Inl e \<Rightarrow> Inl e
      | Inr i \<Rightarrow>
          Inr (map (\<lambda>k. (k, int (length (filter (\<lambda>r. r ! i = k) (rows t)))))
                 (sort_key sql_key (uniq [] (map (\<lambda>r. r ! i) (rows t)))))))"

text \<open>
  \<^verbatim>\<open>SELECT id, question_type, question_text FROM questions LIMIT 3;\<close>
  with the limit as a parameter.
\<close>

definition sample_questions ::
  "handle \<Rightarrow> nat \<Rightarrow> py_error + (sql_value \<times> sql_value \<times> sql_value) list" where
  "sample_questions h limit = (case from_table h ''questions'' of
      Inl e \<Rightarrow> Inl e
    | Inr t \<Rightarrow> (case column t ''id'' of
        Inl e \<Rightarrow> Inl e
      | Inr i \<Rightarrow> (case column t ''question_type'' of
          Inl e \<Rightarrow> Inl e
        | Inr j \<Rightarrow> (case column t ''question_text'' of
            Inl e \<Rightarrow> Inl e
          | Inr k \<Rightarrow> Inr (map (\<lambda>r. (r ! i, r ! j, r ! k)) (take limit (rows t)))))))"

text \<open>
  \<^verbatim>\<open>SELECT * FROM questions WHERE id = 1;\<close> followed by \<^verbatim>\<open>fetchone()\<close> and
  \<^verbatim>\<open>cursor.description\<close>: the column names, and the first matching row if there is one.
\<close>

definition first_question :: "handle \<Rightarrow> py_error + (string list \<times> row option)" where
  "first_question h = (case from_table h ''questions'' of
      Inl e \<Rightarrow> Inl e
    | Inr t \<Rightarrow> (case column t ''id'' of
        Inl e \<Rightarrow> Inl e
      | Inr i \<Rightarrow>
          Inr (columns t,
               (case filter (\<lambda>r. sql_equals (r ! i) (SqlInt 1)) (rows t) of
                  [] \<Rightarrow> None
                | r # _ \<Rightarrow> Some r))))"

text \<open>
  \<^verbatim>\<open>SELECT option_text, is_correct FROM options WHERE question_id = ? ORDER BY id;\<close>
\<close>

definition load_options_for ::
  "handle \<Rightarrow> sql_value \<Rightarrow> py_error + (sql_value \<times> sql_value) list" where
  "load_options_for h qid = (case from_table h ''options'' of
      Inl e \<Rightarrow> Inl e
    | Inr t \<Rightarrow> (case column t ''option_text'' of
        Inl e \<Rightarrow> Inl e
      | Inr a \<Rightarrow> (case column t ''is_correct'' of
          Inl e \<Rightarrow> Inl e
        | Inr b \<Rightarrow> (case column t ''question_id'' of
            Inl e \<Rightarrow> Inl e
          | Inr q \<Rightarrow> (case column t ''id'' of
              Inl e \<Rightarrow> Inl e
            | Inr i \<Rightarrow>
                Inr (map (\<lambda>r. (r ! a, r ! b))
                       (sort_key (\<lambda>r. sql_key (r ! i))
                          (filter (\<lambda>r. sql_equals (r ! q) qid) (rows t)))))))))"

text \<open>
  \<^verbatim>\<open>SELECT left_text, right_text FROM match_pairs WHERE question_id = ?;\<close>
\<close>

definition load_match_pairs_for ::
  "handle \<Rightarrow> sql_value \<Rightarrow> py_error + (sql_value \<times> sql_value) list" where
  "load_match_pairs_for h qid = (case from_table h ''match_pairs'' of
      Inl e \<Rightarrow> Inl e
    | Inr t \<Rightarrow> (case column t ''left_text'' of
        Inl e \<Rightarrow> Inl e
      | Inr a \<Rightarrow> (case column t ''right_text'' of
          Inl e \<Rightarrow> Inl e
        | Inr b \<Rightarrow> (case column t ''question_id'' of
            Inl e \<Rightarrow> Inl e
          | Inr q \<Rightarrow>
              Inr (map (\<lambda>r. (r ! a, r ! b))
                     (filter (\<lambda>r. sql_equals (r ! q) qid) (rows t)))))))"

text \<open>
  \<^verbatim>\<open>SELECT id, question_text FROM questions WHERE question_text LIKE "p1" OR
  question_text LIKE "p2" ...\<close>: a row is kept when one of the LIKE tests is true.
\<close>

definition row_matches :: "table \<Rightarrow> nat \<Rightarrow> string list \<Rightarrow> row \<Rightarrow> bool" where
  "row_matches t k pats r = (\<exists>p \<in> set pats. sql_like (r ! k) (double_quoted t p r))"

definition search_questions ::
  "handle \<Rightarrow> string list \<Rightarrow> py_error + (sql_value \<times> sql_value) list" where
  "search_questions h pats = (case from_table h ''questions'' of
      Inl e \<Rightarrow> Inl e
    | Inr t \<Rightarrow> (case column t ''id'' of
        Inl e \<Rightarrow> Inl e
      | Inr i \<Rightarrow> (case column t ''question_text'' of
          Inl e \<Rightarrow> Inl e
        | Inr k \<Rightarrow>
            Inr (map (\<lambda>r. (r ! i, r ! k)) (filter (row_matches t k pats) (rows t))))))"

section \<open>Files and connections\<close>

text \<open>
  What a path names: a database file, a file that is not a database, or something
  SQLite cannot open at all (a directory, a file without read permission).
  \<open>creatable fs p\<close> says whether a new file can be made at a path that names nothing
  (its directory exists and is writable).
\<close>

datatype node = DbFile database | OtherFile | Unopenable

record filesystem =
  nodes :: "py_str \<rightharpoonup> node"
  creatable :: "py_str \<Rightarrow> bool"

text \<open>\<^verbatim>\<open>os.path.exists(path)\<close>\<close>

definition path_exists :: "filesystem \<Rightarrow> py_str \<Rightarrow> bool" where
  "path_exists fs p = (nodes fs p \<noteq> None)"

text \<open>
  \<^verbatim>\<open>sqlite3.connect(path)\<close> opens the file for reading and writing and creates it, empty,
  when the path names nothing. It returns the connection or raises, and the
  filesystem afterwards.
\<close>

definition connect :: "filesystem \<Rightarrow> py_str \<Rightarrow> (py_error + handle) \<times> filesystem" where
  "connect fs p = (case nodes fs p of
      Some (DbFile db) \<Rightarrow> (Inr (Bank db), fs)
    | Some OtherFile \<Rightarrow> (Inr NotADatabase, fs)
    | Some Unopenable \<Rightarrow> (Inl (OperationalError ''unable to open database file''), fs)
    | None \<Rightarrow>
        (if creatable fs p
         then (Inr (Bank empty_database),
               fs\<lparr>nodes := (nodes fs)(p \<mapsto> DbFile empty_database)\<rparr>)
         else (Inl (OperationalError ''unable to open database file''), fs)))"

datatype conn_state = NoConn | ConnOpen | ConnClosed

section \<open>What a run leaves behind\<close>

text \<open>
  A printed line is the sequence of its pieces: literal text of the script, a single
  character given by its code point, \<^verbatim>\<open>str()\<close> of a value, or \<^verbatim>\<open>repr()\<close> of a list
  of pairs or of a dictionary. A run ends with its output, the exception that ended
  it (if any), the state of its connection and the filesystem.
\<close>

datatype piece =
    Lit string
  | Uni nat
  | Str sql_value
  | Repr_pairs "(sql_value \<times> sql_value) list"
  | Repr_dict "(string \<times> sql_value) list"

type_synonym line = "piece list"

type_synonym section_result = "line list \<times> py_error option"

record outcome =
  stdout :: "line list"
  raised :: "py_error option"
  conn :: conn_state
  fs_after :: filesystem

definition exit_code :: "outcome \<Rightarrow> nat" where
  "exit_code r = (if raised r = None then 0 else 1)"

text \<open>Statements in sequence: the first exception ends the run, what was printed stays.\<close>

fun run_sections :: "section_result list \<Rightarrow> section_result" where
  "run_sections [] = ([], None)"
| "run_sections ((out, Some e) # rest) = (out, Some e)"
| "run_sections ((out, None) # rest) =
     (case run_sections rest of (out', err) \<Rightarrow> (out @ out', err))"

text \<open>\<^verbatim>\<open>x[:n]\<close>: a \<^verbatim>\<open>str\<close> is cut by characters, \<^verbatim>\<open>None\<close> and \<^verbatim>\<open>int\<close> raise.\<close>

fun slice_to :: "nat \<Rightarrow> sql_value \<Rightarrow> py_error + sql_value" where
  "slice_to n (SqlText t) = Inr (SqlText (take n t))"
| "slice_to n SqlNull = Inl (TypeError ''NoneType object is not subscriptable'')"
| "slice_to n (SqlInt i) = Inl (TypeError ''int object is not subscriptable'')"

text \<open>The truth value Python gives a value in \<^verbatim>\<open>if is_correct\<close>.\<close>

fun truthy :: "sql_value \<Rightarrow> bool" where
  "truthy SqlNull = False"
| "truthy (SqlInt i) = (i \<noteq> 0)"
| "truthy (SqlText t) = (t \<noteq> [])"

section \<open>\<^verbatim>\<open>check_db.py\<close>\<close>

definition db_path :: py_str where
  "db_path = lit ''d:'' @ [92] @ lit ''Projects'' @ [92] @ lit ''MockTest'' @ [92]
     @ lit ''DB Files'' @ [92] @ lit ''Testing.db''"

definition schema_section :: "handle \<Rightarrow> section_result" where
  "schema_section h = (case describe_schema h of
      Inl e \<Rightarrow> ([[Lit ''=== DATABASE SCHEMA ==='']], Some e)
    | Inr tbls \<Rightarrow>
        ([Lit ''=== DATABASE SCHEMA ===''] # concat (map (\<lambda>v. [[Str v], []]) tbls), None))"

definition types_section :: "handle \<Rightarrow> section_result" where
  "types_section h = (case enumerate_distinct h ''question_type'' of
      Inl e \<Rightarrow> ([[Lit ''=== QUESTION TYPES ==='']], Some e)
    | Inr types \<Rightarrow>
        ([Lit ''=== QUESTION TYPES ===''] # map (\<lambda>v. [Lit ''- '', Str v]) types, None))"

definition counts_section :: "handle \<Rightarrow> section_result" where
  "counts_section h = (case count_by_type h of
      Inl e \<Rightarrow> ([[], [Lit ''=== QUESTION COUNT BY TYPE ==='']], Some e)
    | Inr counts \<Rightarrow>
        ([[], [Lit ''=== QUESTION COUNT BY TYPE ==='']]
           @ map (\<lambda>(qtype, count). [Str qtype, Lit '': '', Str (SqlInt count), Lit '' questions''])
               counts,
         None))"

definition topics_section :: "handle \<Rightarrow> section_result" where
  "topics_section h = (case enumerate_distinct h ''topic'' of
      Inl e \<Rightarrow> ([[], [Lit ''=== TOPICS ==='']], Some e)
    | Inr topics \<Rightarrow>
        ([[], [Lit ''=== TOPICS ==='']] @ map (\<lambda>v. [Lit ''- '', Str v]) topics, None))"

text \<open>The \<^verbatim>\<open>try\<close> block: only \<^verbatim>\<open>sqlite3.OperationalError\<close> is caught.\<close>

definition subtopics_section :: "handle \<Rightarrow> section_result" where
  "subtopics_section h = (case enumerate_distinct h ''subtopic'' of
      Inr subtopics \<Rightarrow>
        ([[], [Lit ''=== SUBTOPICS ==='']] @ map (\<lambda>v. [Lit ''- '', Str v]) subtopics, None)
    | Inl (OperationalError m) \<Rightarrow>
        ([[], [Lit ''=== SUBTOPICS ===''], [Lit ''No subtopic column found'']], None)
    | Inl e \<Rightarrow> ([[], [Lit ''=== SUBTOPICS ==='']], Some e))"

definition sample_line :: "sql_value \<Rightarrow> sql_value \<Rightarrow> sql_value \<Rightarrow> line" where
  "sample_line qid qtype preview =
     [Lit ''ID '', Str qid, Lit '' ('', Str qtype, Lit ''): '', Str preview, Lit ''...'']"

fun print_samples :: "(sql_value \<times> sql_value \<times> sql_value) list \<Rightarrow> section_result" where
  "print_samples [] = ([], None)"
| "print_samples ((qid, qtype, qtext) # rest) = (case slice_to 100 qtext of
      Inl e \<Rightarrow> ([], Some e)
    | Inr preview \<Rightarrow> (case print_samples rest of
        (out, err) \<Rightarrow> (sample_line qid qtype preview # out, err)))"

definition samples_section :: "handle \<Rightarrow> section_result" where
  "samples_section h = (case sample_questions h 3 of
      Inl e \<Rightarrow> ([[], [Lit ''=== SAMPLE QUESTIONS ==='']], Some e)
    | Inr samples \<Rightarrow> (case print_samples samples of
        (out, err) \<Rightarrow> ([[], [Lit ''=== SAMPLE QUESTIONS ==='']] @ out, err)))"

text \<open>
  The script, with the path as a parameter. \<^verbatim>\<open>conn.close()\<close> is its last statement
  inside the \<^verbatim>\<open>if\<close>, reached only when nothing was raised before.
\<close>

definition check_db :: "filesystem \<Rightarrow> py_str \<Rightarrow> outcome" where
  "check_db fs path =
     (if path_exists fs path then
        (case connect fs path of
           (Inl e, fs') \<Rightarrow> \<lparr>stdout = [], raised = Some e, conn = NoConn, fs_after = fs'\<rparr>
         | (Inr h, fs') \<Rightarrow>
             (case run_sections
                     [schema_section h, types_section h, counts_section h,
                      topics_section h, subtopics_section h, samples_section h] of
                (out, Some e) \<Rightarrow>
                  \<lparr>stdout = out, raised = Some e, conn = ConnOpen, fs_after = fs'\<rparr>
              | (out, None) \<Rightarrow>
                  \<lparr>stdout = out, raised = None, conn = ConnClosed, fs_after = fs'\<rparr>))
      else
        \<lparr>stdout = [[Lit ''Database not found at: '', Str (SqlText path)]],
         raised = None, conn = NoConn, fs_after = fs\<rparr>)"

section \<open>\<^verbatim>\<open>debug_question.py\<close>\<close>

text \<open>
  \<^verbatim>\<open>dict(zip(columns, question))\<close>: \<^verbatim>\<open>zip\<close> raises \<^verbatim>\<open>TypeError\<close> when \<^verbatim>\<open>fetchone()\<close>
  gave \<^verbatim>\<open>None\<close>. The column names of a table are distinct, so the dictionary has the
  pairs of the zip.
\<close>

definition question_section :: "handle \<Rightarrow> section_result" where
  "question_section h = (case first_question h of
      Inl e \<Rightarrow> ([[Lit ''=== FIRST QUESTION DATA ==='']], Some e)
    | Inr (cols, None) \<Rightarrow>
        ([[Lit ''=== FIRST QUESTION DATA ==='']],
         Some (TypeError ''NoneType object is not iterable''))
    | Inr (cols, Some question) \<Rightarrow>
        ([[Lit ''=== FIRST QUESTION DATA ===''],
          [Lit ''Question data:'', Lit '' '', Repr_dict (zip cols question)]], None))"

definition options_section :: "handle \<Rightarrow> section_result" where
  "options_section h = (case load_options_for h (SqlInt 1) of
      Inl e \<Rightarrow> ([[], [Lit ''=== OPTIONS FOR QUESTION 1 ==='']], Some e)
    | Inr options \<Rightarrow>
        ([[], [Lit ''=== OPTIONS FOR QUESTION 1 ===''],
          [Lit ''Options:'', Lit '' '', Repr_pairs options]], None))"

definition match_pairs_section :: "handle \<Rightarrow> section_result" where
  "match_pairs_section h = (case load_match_pairs_for h (SqlInt 1) of
      Inl e \<Rightarrow> ([[], [Lit ''=== MATCH PAIRS FOR QUESTION 1 ==='']], Some e)
    | Inr matches \<Rightarrow>
        ([[], [Lit ''=== MATCH PAIRS FOR QUESTION 1 ===''],
          [Lit ''Match pairs:'', Lit '' '', Repr_pairs matches]], None))"

text \<open>The script connects without looking whether the path exists.\<close>

definition debug_question :: "filesystem \<Rightarrow> py_str \<Rightarrow> outcome" where
  "debug_question fs path =
     (case connect fs path of
        (Inl e, fs') \<Rightarrow> \<lparr>stdout = [], raised = Some e, conn = NoConn, fs_after = fs'\<rparr>
      | (Inr h, fs') \<Rightarrow>
          (case run_sections [question_section h, options_section h, match_pairs_section h] of
             (out, Some e) \<Rightarrow>
               \<lparr>stdout = out, raised = Some e, conn = ConnOpen, fs_after = fs'\<rparr>
           | (out, None) \<Rightarrow>
               \<lparr>stdout = out, raised = None, conn = ConnClosed, fs_after = fs'\<rparr>))"

section \<open>\<^verbatim>\<open>Golden/Golden 24/search_question.py\<close>\<close>

definition search_path :: py_str where
  "search_path = lit ''DB Files/EdLEAP-Leadership Questions.db''"

definition search_patterns :: "string list" where
  "search_patterns = [''%professional learning communities%'', ''%strengthens professional%'']"

text \<open>The marker of an option: the check mark U+2713 when \<^verbatim>\<open>is_correct\<close> is true, a space otherwise.\<close>

definition marker :: "sql_value \<Rightarrow> piece" where
  "marker is_correct = (if truthy is_correct then Uni 10003 else Lit '' '')"

fun print_found :: "handle \<Rightarrow> (sql_value \<times> sql_value) list \<Rightarrow> section_result" where
  "print_found h [] = ([], None)"
| "print_found h ((qid, qtext) # rest) = (case load_options_for h qid of
      Inl e \<Rightarrow> ([[Lit ''ID '', Str qid, Lit '': '', Str qtext]], Some e)
    | Inr options \<Rightarrow> (case print_found h rest of
        (out, err) \<Rightarrow>
          ([[Lit ''ID '', Str qid, Lit '': '', Str qtext]]
             @ map (\<lambda>(opt_text, is_correct).
                      [Lit ''  '', marker is_correct, Lit '' '', Str opt_text]) options
             @ [[]] @ out,
           err)))"

definition search_section :: "handle \<Rightarrow> string list \<Rightarrow> section_result" where
  "search_section h pats = (case search_questions h pats of
      Inl e \<Rightarrow> ([], Some e)
    | Inr questions \<Rightarrow> print_found h questions)"

definition search_question :: "filesystem \<Rightarrow> py_str \<Rightarrow> string list \<Rightarrow> outcome" where
  "search_question fs path pats =
     (case connect fs path of
        (Inl e, fs') \<Rightarrow> \<lparr>stdout = [], raised = Some e, conn = NoConn, fs_after = fs'\<rparr>
      | (Inr h, fs') \<Rightarrow>
          (case search_section h pats of
             (out, Some e) \<Rightarrow>
               \<lparr>stdout = out, raised = Some e, conn = ConnOpen, fs_after = fs'\<rparr>
           | (out, None) \<Rightarrow>
               \<lparr>stdout = out, raised = None, conn = ConnClosed, fs_after = fs'\<rparr>))"

section \<open>\<^verbatim>\<open>Golden/Golden 24/check_leadership_db.py\<close>\<close>

text \<open>
  The script is \<^verbatim>\<open>check_db.py\<close> on another file, and its loop over the samples also
  loads the options and the match pairs of each sampled question. The arrow between
  the two sides of a pair is U+2192.
\<close>

definition leadership_path :: py_str where
  "leadership_path = lit ''d:'' @ [92] @ lit ''Projects'' @ [92] @ lit ''MockTest'' @ [92]
     @ lit ''DB Files'' @ [92] @ lit ''EdLEAP-Leadership Questions.db''"

definition options_lines :: "(sql_value \<times> sql_value) list \<Rightarrow> line list" where
  "options_lines options =
     (if options = [] then []
      else [Lit ''  Options: '', Str (SqlInt (int (length options))), Lit '' found'']
           # map (\<lambda>(opt_text, is_correct).
                    [Lit ''    '', marker is_correct, Lit '' '', Str opt_text]) options)"

definition matches_lines :: "(sql_value \<times> sql_value) list \<Rightarrow> line list" where
  "matches_lines matches =
     (if matches = [] then []
      else [Lit ''  Match pairs: '', Str (SqlInt (int (length matches))), Lit '' found'']
           # map (\<lambda>(left, right).
                    [Lit ''    '', Str left, Lit '' '', Uni 8594, Lit '' '', Str right]) matches)"

fun print_samples_with_children ::
  "handle \<Rightarrow> (sql_value \<times> sql_value \<times> sql_value) list \<Rightarrow> section_result" where
  "print_samples_with_children h [] = ([], None)"
| "print_samples_with_children h ((qid, qtype, qtext) # rest) = (case slice_to 100 qtext of
      Inl e \<Rightarrow> ([], Some e)
    | Inr preview \<Rightarrow> (case load_options_for h qid of
        Inl e \<Rightarrow> ([sample_line qid qtype preview], Some e)
      | Inr options \<Rightarrow> (case load_match_pairs_for h qid of
          Inl e \<Rightarrow> (sample_line qid qtype preview # options_lines options, Some e)
        | Inr matches \<Rightarrow> (case print_samples_with_children h rest of
            (out, err) \<Rightarrow>
              (sample_line qid qtype preview # options_lines options
                 @ matches_lines matches @ [[]] @ out,
               err)))))"

definition samples_with_children_section :: "handle \<Rightarrow> section_result" where
  "samples_with_children_section h = (case sample_questions h 3 of
      Inl e \<Rightarrow> ([[], [Lit ''=== SAMPLE QUESTIONS ==='']], Some e)
    | Inr samples \<Rightarrow> (case print_samples_with_children h samples of
        (out, err) \<Rightarrow> ([[], [Lit ''=== SAMPLE QUESTIONS ==='']] @ out, err)))"

definition check_leadership_db :: "filesystem \<Rightarrow> py_str \<Rightarrow> outcome" where
  "check_leadership_db fs path =
     (if path_exists fs path then
        (case connect fs path of
           (Inl e, fs') \<Rightarrow> \<lparr>stdout = [], raised = Some e, conn = NoConn, fs_after = fs'\<rparr>
         | (Inr h, fs') \<Rightarrow>
             (case run_sections
                     [schema_section h, types_section h, counts_section h,
                      topics_section h, subtopics_section h,
                      samples_with_children_section h] of
                (out, Some e) \<Rightarrow>
                  \<lparr>stdout = out, raised = Some e, conn = ConnOpen, fs_after = fs'\<rparr>
              | (out, None) \<Rightarrow>
                  \<lparr>stdout = out, raised = None, conn = ConnClosed, fs_after = fs'\<rparr>))
      else
        \<lparr>stdout = [[Lit ''Database not found at: '', Str (SqlText path)]],
         raised = None, conn = NoConn, fs_after = fs\<rparr>)"

section \<open>Example filesystems and banks\<close>

text \<open>A filesystem with no file at all, in which any file can be created.\<close>

definition no_files :: filesystem where
  "no_files = \<lparr>nodes = Map.empty, creatable = (\<lambda>p. True)\<rparr>"

text \<open>A filesystem whose only file is a database without tables, at \<open>db_path\<close>.\<close>

definition empty_bank_files :: filesystem where
  "empty_bank_files =
     \<lparr>nodes = [db_path \<mapsto> DbFile empty_database], creatable = (\<lambda>p. False)\<rparr>"

text \<open>
  The bank of the end-to-end scenario: one multiple-choice question with two options,
  the second one correct, and no match pairs. The \<^verbatim>\<open>questions\<close> table has no
  \<^verbatim>\<open>subtopic\<close> column.
\<close>

definition scenario_questions :: table where
  "scenario_questions =
     \<lparr>tbl_sql = lit ''CREATE TABLE questions (id INTEGER PRIMARY KEY, question_type TEXT, topic TEXT, question_text TEXT)'',
      columns = [''id'', ''question_type'', ''topic'', ''question_text''],
      rows = [[SqlInt 1, SqlText (lit ''MCQ''), SqlText (lit ''Leadership''),
               SqlText (lit ''What is leadership?'')]]\<rparr>"

definition scenario_options :: table where
  "scenario_options =
     \<lparr>tbl_sql = lit ''CREATE TABLE options (id INTEGER PRIMARY KEY, question_id INTEGER, option_text TEXT, is_correct BOOLEAN)'',
      columns = [''id'', ''question_id'', ''option_text'', ''is_correct''],
      rows = [[SqlInt 1, SqlInt 1, SqlText (lit ''Trait-based''), SqlInt 0],
              [SqlInt 2, SqlInt 1, SqlText (lit ''Situational''), SqlInt 1]]\<rparr>"

definition no_match_pairs :: table where
  "no_match_pairs =
     \<lparr>tbl_sql = lit ''CREATE TABLE match_pairs (question_id INTEGER, left_text TEXT, right_text TEXT)'',
      columns = [''question_id'', ''left_text'', ''right_text''],
      rows = []\<rparr>"

definition scenario_bank :: database where
  "scenario_bank = \<lparr>tables =
     [(''questions'', scenario_questions), (''options'', scenario_options),
      (''match_pairs'', no_match_pairs)]\<rparr>"

definition scenario_files :: filesystem where
  "scenario_files =
     \<lparr>nodes = [db_path \<mapsto> DbFile scenario_bank], creatable = (\<lambda>p. False)\<rparr>"

text \<open>
  The same bank with the ids of the two options exchanged: the option stored (and
  created) first has the larger id.
\<close>

definition exchanged_options :: table where
  "exchanged_options =
     \<lparr>tbl_sql = lit ''CREATE TABLE options (id INT PRIMARY KEY, question_id INTEGER, option_text TEXT, is_correct BOOLEAN)'',
      columns = [''id'', ''question_id'', ''option_text'', ''is_correct''],
      rows = [[SqlInt 2, SqlInt 1, SqlText (lit ''Trait-based''), SqlInt 0],
              [SqlInt 1, SqlInt 1, SqlText (lit ''Situational''), SqlInt 1]]\<rparr>"

definition exchanged_bank :: database where
  "exchanged_bank = \<lparr>tables =
     [(''questions'', scenario_questions), (''options'', exchanged_options),
      (''match_pairs'', no_match_pairs)]\<rparr>"

text \<open>
  The options of the scenario, with the ids they have there, kept by the table in the
  opposite order.
\<close>

definition reversed_options :: table where
  "reversed_options =
     \<lparr>tbl_sql = lit ''CREATE TABLE options (id INT PRIMARY KEY, question_id INTEGER, option_text TEXT, is_correct BOOLEAN)'',
      columns = [''id'', ''question_id'', ''option_text'', ''is_correct''],
      rows = [[SqlInt 2, SqlInt 1, SqlText (lit ''Situational''), SqlInt 1],
              [SqlInt 1, SqlInt 1, SqlText (lit ''Trait-based''), SqlInt 0]]\<rparr>"

definition reversed_bank :: database where
  "reversed_bank = \<lparr>tables =
     [(''questions'', scenario_questions), (''options'', reversed_options),
      (''match_pairs'', no_match_pairs)]\<rparr>"

text \<open>
  A bank with four questions of three types (one type is NULL). The text of the second
  question is 120 times the letter U+00E9, which takes two bytes in UTF-8. Only the
  first question has options; the second has a match pair.
\<close>

definition mixed_questions :: table where
  "mixed_questions =
     \<lparr>tbl_sql = lit ''CREATE TABLE questions (id INTEGER PRIMARY KEY, question_type TEXT, topic TEXT, question_text TEXT)'',
      columns = [''id'', ''question_type'', ''topic'', ''question_text''],
      rows = [[SqlInt 1, SqlText (lit ''MCQ''), SqlText (lit ''Leadership''),
               SqlText (lit ''What is leadership?'')],
              [SqlInt 2, SqlText (lit ''MATCH''), SqlText (lit ''Styles''),
               SqlText (replicate 120 233)],
              [SqlInt 3, SqlText (lit ''MCQ''), SqlText (lit ''Styles''),
               SqlText (lit ''Which style delegates?'')],
              [SqlInt 4, SqlNull, SqlText (lit ''Leadership''),
               SqlText (lit ''Describe a leader.'')]]\<rparr>"

definition one_match_pair :: table where
  "one_match_pair =
     \<lparr>tbl_sql = lit ''CREATE TABLE match_pairs (question_id INTEGER, left_text TEXT, right_text TEXT)'',
      columns = [''question_id'', ''left_text'', ''right_text''],
      rows = [[SqlInt 2, SqlText (lit ''Autocratic''), SqlText (lit ''Decides alone'')]]\<rparr>"

definition mixed_bank :: database where
  "mixed_bank = \<lparr>tables =
     [(''questions'', mixed_questions), (''options'', scenario_options),
      (''match_pairs'', one_match_pair)]\<rparr>"

text \<open>
  Two banks with a single free-text question and neither options nor match pairs: in
  the first the question has id 1, in the second it has id 2.
\<close>

definition no_options :: table where
  "no_options =
     \<lparr>tbl_sql = lit ''CREATE TABLE options (id INTEGER PRIMARY KEY, question_id INTEGER, option_text TEXT, is_correct BOOLEAN)'',
      columns = [''id'', ''question_id'', ''option_text'', ''is_correct''],
      rows = []\<rparr>"

definition free_text_questions :: "int \<Rightarrow> table" where
  "free_text_questions n =
     \<lparr>tbl_sql = lit ''CREATE TABLE questions (id INTEGER PRIMARY KEY, question_type TEXT, topic TEXT, question_text TEXT)'',
      columns = [''id'', ''question_type'', ''topic'', ''question_text''],
      rows = [[SqlInt n, SqlText (lit ''TEXT''), SqlText (lit ''Leadership''),
               SqlText (lit ''Describe a leader.'')]]\<rparr>"

definition free_text_bank :: "int \<Rightarrow> database" where
  "free_text_bank n = \<lparr>tables =
     [(''questions'', free_text_questions n), (''options'', no_options),
      (''match_pairs'', no_match_pairs)]\<rparr>"

definition free_text_files :: "int \<Rightarrow> filesystem" where
  "free_text_files n =
     \<lparr>nodes = [db_path \<mapsto> DbFile (free_text_bank n)], creatable = (\<lambda>p. False)\<rparr>"

section \<open>Facts about the storage layer\<close>

lemmas bank_defs =
  scenario_bank_def scenario_questions_def scenario_options_def no_match_pairs_def
  exchanged_bank_def exchanged_options_def mixed_bank_def mixed_questions_def
  one_match_pair_def free_text_bank_def free_text_questions_def no_options_def
  empty_database_def

lemmas files_defs =
  no_files_def empty_bank_files_def scenario_files_def free_text_files_def

lemmas statement_defs =
  opened_def from_table_def column_def describe_schema_def enumerate_distinct_def
  count_by_type_def sample_questions_def first_question_def load_options_for_def
  load_match_pairs_for_def search_questions_def sql_equals_def

lemmas check_db_defs =
  check_db_def path_exists_def connect_def schema_section_def types_section_def
  counts_section_def topics_section_def subtopics_section_def samples_section_def
  sample_line_def

lemmas debug_question_defs =
  debug_question_def connect_def question_section_def options_section_def
  match_pairs_section_def

lemma index_of_None: "index_of c cols = None \<longleftrightarrow> c \<notin> set cols"
  by (induction cols) auto

lemma index_of_Some: "c \<in> set cols \<Longrightarrow> \<exists>i. index_of c cols = Some i"
  using index_of_None [of c cols] by (cases "index_of c cols") auto

lemma column_present: "c \<in> set (columns t) \<Longrightarrow> \<exists>i. column t c = Inr i"
  using index_of_Some [of c "columns t"] by (auto simp: column_def)

lemma column_absent:
  "c \<notin> set (columns t) \<Longrightarrow> column t c = Inl (OperationalError (''no such column: '' @ c))"
  using index_of_None [of c "columns t"] by (simp add: column_def)

lemma double_quoted_literal:
  "p \<notin> set (columns t) \<Longrightarrow> double_quoted t p r = SqlText (lit p)"
  using index_of_None [of p "columns t"] by (simp add: double_quoted_def)

lemma set_uniq: "set (uniq seen xs) = set xs - set seen"
  by (induction xs arbitrary: seen) auto

lemma distinct_uniq: "distinct (uniq seen xs)"
  by (induction xs arbitrary: seen) (auto simp: set_uniq)

lemma filter_none: "\<forall>r \<in> set xs. \<not> P r \<Longrightarrow> filter P xs = []"
  by (induction xs) auto

lemma connect_cases:
  "(\<exists>e. connect fs path = (Inl e, fs)) \<or> (\<exists>h fs'. connect fs path = (Inr h, fs'))"
  by (auto simp: connect_def split: option.splits node.splits)

lemma connect_bank: "nodes fs path = Some (DbFile db) \<Longrightarrow> connect fs path = (Inr (Bank db), fs)"
  by (simp add: connect_def)

lemma run_sections_all_ok:
  "run_sections [(o1, None), (o2, None), (o3, None), (o4, None), (o5, None), s] =
     (o1 @ o2 @ o3 @ o4 @ o5 @ fst s, snd s)"
  by (cases s; cases "snd s") auto

subsection \<open>Sorting by a key that tells the rows apart\<close>

text \<open>
  When the keys of the rows are distinct, sorting by the key gives the same list for
  every arrangement of the same rows.
\<close>

lemma sql_key_inj: "sql_key a = sql_key b \<Longrightarrow> a = b"
  by (cases a; cases b) auto

lemma distinct_sql_key:
  "distinct (map g xs) \<Longrightarrow> distinct (map (\<lambda>r. sql_key (g r)) xs)"
  by (induction xs) (auto dest: sql_key_inj)

lemma filter_same_key:
  "distinct (map f zs) \<Longrightarrow> k \<in> set zs \<Longrightarrow> filter (\<lambda>x. f k = f x) zs = [k]"
proof (induction zs)
  case Nil
  then show ?case by simp
next
  case (Cons z zs)
  show ?case
  proof (cases "k = z")
    case True
    with Cons.prems have "\<forall>x \<in> set zs. f z \<noteq> f x" by auto
    then have "filter (\<lambda>x. f z = f x) zs = []" by (simp add: filter_none)
    with True show ?thesis by simp
  next
    case False
    with Cons.prems have k: "k \<in> set zs" and d: "distinct (map f zs)" by auto
    with Cons.prems have "f k \<noteq> f z" by (metis distinct.simps(2) image_eqI list.simps(9) list.set_map)
    with Cons.IH [OF d k] show ?thesis by simp
  qed
qed

lemma sort_key_permutation:
  assumes perm: "mset xs = mset ys" and d: "distinct (map f xs)"
  shows "sort_key f xs = sort_key f ys"
proof (rule properties_for_sort_key)
  show "mset (sort_key f ys) = mset xs" using perm by simp
  show "sorted (map f (sort_key f ys))" by simp
  fix k assume k: "k \<in> set (sort_key f ys)"
  have "mset (map f (sort_key f ys)) = mset (map f xs)" using perm by simp
  then have d': "distinct (map f (sort_key f ys))"
    using d mset_eq_imp_distinct_iff by blast
  have kx: "k \<in> set xs" using k perm by (metis mset_eq_setD set_sort)
  show "filter (\<lambda>x. f k = f x) (sort_key f ys) = filter (\<lambda>x. f k = f x) xs"
    using filter_same_key [OF d' k] filter_same_key [OF d kx] by simp
qed

subsection \<open>Groups partition the rows\<close>

lemma sum_indicator_distinct:
  "distinct ks \<Longrightarrow> (\<Sum>k\<leftarrow>ks. if x = k then 1 else 0) = (if x \<in> set ks then (1::nat) else 0)"
  by (induction ks) auto

lemma group_sizes_total:
  "distinct ks \<Longrightarrow> f ` set xs \<subseteq> set ks \<Longrightarrow>
   (\<Sum>k\<leftarrow>ks. length (filter (\<lambda>r. f r = k) xs)) = length xs"
proof (induction xs)
  case Nil
  then show ?case by simp
next
  case (Cons x xs)
  have "(\<Sum>k\<leftarrow>ks. length (filter (\<lambda>r. f r = k) (x # xs)))
        = (\<Sum>k\<leftarrow>ks. (if f x = k then 1 else 0) + length (filter (\<lambda>r. f r = k) xs))"
    by (rule arg_cong [where f = sum_list]) (rule map_cong, auto)
  also have "\<dots> = (\<Sum>k\<leftarrow>ks. if f x = k then 1 else 0)
                  + (\<Sum>k\<leftarrow>ks. length (filter (\<lambda>r. f r = k) xs))"
    by (simp add: sum_list_addf)
  also have "\<dots> = 1 + length xs"
    using Cons by (simp add: sum_indicator_distinct)
  finally show ?case by simp
qed

lemma sum_list_int: "(\<Sum>k\<leftarrow>ks. int (f k)) = int (\<Sum>k\<leftarrow>ks. f k)"
  by (induction ks) auto

subsection \<open>Previews\<close>

lemma print_samples_previews:
  "map (\<lambda>(qid, qtype, qtext). qtext) samples = map SqlText texts \<Longrightarrow>
   print_samples samples =
     (map (\<lambda>((qid, qtype, qtext), s). sample_line qid qtype (SqlText (take 100 s)))
        (zip samples texts),
      None)"
proof (induction samples arbitrary: texts)
  case Nil
  then show ?case by simp
next
  case (Cons x samples)
  then obtain s rest where texts: "texts = s # rest" by (cases texts) auto
  obtain qid qtype qtext where x: "x = (qid, qtype, qtext)" by (cases x) auto
  from Cons.prems texts x have "qtext = SqlText s"
    and "map (\<lambda>(qid, qtype, qtext). qtext) samples = map SqlText rest" by auto
  with Cons.IH [of rest] texts x show ?case by simp
qed

lemma prefix_concat_take: "prefix (concat (map enc (take n s))) (concat (map enc s))"
proof -
  have "concat (map enc s) = concat (map enc (take n s)) @ concat (map enc (drop n s))"
    by (metis append_take_drop_id concat_append map_append)
  then show ?thesis by (rule prefixI)
qed

subsection \<open>LIKE as containment\<close>

text \<open>
  A pattern \<^verbatim>\<open>%w%\<close> whose word \<open>w\<close> has no wildcard matches exactly the texts that
  contain \<open>w\<close>, ASCII letters compared without regard to case.
\<close>

lemma like_percent_all: "like [37] s"
  by (induction s) auto

lemma like_percent:
  "like (37 # ps) s \<longleftrightarrow> (\<exists>a r. s = a @ r \<and> like ps r)"
proof (induction s)
  case Nil
  then show ?case by (cases ps) auto
next
  case (Cons c s)
  show ?case
  proof
    assume "like (37 # ps) (c # s)"
    then consider "like ps (c # s)" | "like (37 # ps) s" by auto
    then show "\<exists>a r. c # s = a @ r \<and> like ps r"
    proof cases
      case 1
      then show ?thesis by (intro exI [of _ "[]"] exI [of _ "c # s"]) simp
    next
      case 2
      then obtain a r where "s = a @ r" "like ps r" using Cons.IH by blast
      then show ?thesis by (intro exI [of _ "c # a"] exI [of _ r]) simp
    qed
  next
    assume "\<exists>a r. c # s = a @ r \<and> like ps r"
    then obtain a r where ar: "c # s = a @ r" "like ps r" by blast
    show "like (37 # ps) (c # s)"
    proof (cases a)
      case Nil
      with ar have "like ps (c # s)" by simp
      then show ?thesis by simp
    next
      case (Cons a0 a')
      with ar have "s = a' @ r" by simp
      with ar(2) have "like (37 # ps) s" using Cons.IH by blast
      then show ?thesis by simp
    qed
  qed
qed

lemma like_word:
  "\<forall>c \<in> set w. c \<noteq> 37 \<and> c \<noteq> 95 \<Longrightarrow>
   like (w @ ps) s \<longleftrightarrow>
     (\<exists>m r. s = m @ r \<and> map ascii_lower m = map ascii_lower w \<and> like ps r)"
proof (induction w arbitrary: s)
  case Nil
  then show ?case by simp
next
  case (Cons x w)
  then have x: "x \<noteq> 37" "x \<noteq> 95" and w: "\<forall>c \<in> set w. c \<noteq> 37 \<and> c \<noteq> 95" by auto
  show ?case
  proof (cases s)
    case Nil
    with x show ?thesis by simp
  next
    case (Cons c s')
    have "like ((x # w) @ ps) (c # s') \<longleftrightarrow> ascii_lower x = ascii_lower c \<and> like (w @ ps) s'"
      using x by simp
    also have "\<dots> \<longleftrightarrow> ascii_lower x = ascii_lower c \<and>
        (\<exists>m r. s' = m @ r \<and> map ascii_lower m = map ascii_lower w \<and> like ps r)"
      using Cons.IH [OF w] by simp
    also have "\<dots> \<longleftrightarrow>
        (\<exists>m r. c # s' = m @ r \<and> map ascii_lower m = map ascii_lower (x # w) \<and> like ps r)"
    proof
      assume "ascii_lower x = ascii_lower c \<and>
        (\<exists>m r. s' = m @ r \<and> map ascii_lower m = map ascii_lower w \<and> like ps r)"
      then obtain m r where "ascii_lower x = ascii_lower c" "s' = m @ r"
        "map ascii_lower m = map ascii_lower w" "like ps r" by blast
      then show "\<exists>m r. c # s' = m @ r \<and> map ascii_lower m = map ascii_lower (x # w) \<and> like ps r"
        by (intro exI [of _ "c # m"] exI [of _ r]) simp
    next
      assume "\<exists>m r. c # s' = m @ r \<and> map ascii_lower m = map ascii_lower (x # w) \<and> like ps r"
      then obtain m r where mr: "c # s' = m @ r" "map ascii_lower m = map ascii_lower (x # w)"
        "like ps r" by blast
      then obtain m' where "m = c # m'" by (cases m) auto
      with mr show "ascii_lower x = ascii_lower c \<and>
        (\<exists>m r. s' = m @ r \<and> map ascii_lower m = map ascii_lower w \<and> like ps r)"
        by auto
    qed
    finally show ?thesis using Cons by simp
  qed
qed

lemma like_contains:
  assumes "\<forall>c \<in> set w. c \<noteq> 37 \<and> c \<noteq> 95"
  shows "like (37 # w @ [37]) s \<longleftrightarrow>
     (\<exists>a m b. s = a @ m @ b \<and> map ascii_lower m = map ascii_lower w)"
  using like_word [OF assms, of "[37]"] like_percent_all
  by (simp add: like_percent) blast

lemma script_pattern_1:
  "like (lit ''%professional learning communities%'') s \<longleftrightarrow>
     (\<exists>a m b. s = a @ m @ b
        \<and> map ascii_lower m = map ascii_lower (lit ''professional learning communities''))"
proof -
  have w: "\<forall>c \<in> set (lit ''professional learning communities''). c \<noteq> 37 \<and> c \<noteq> 95"
    by (simp add: lit_def)
  have "lit ''%professional learning communities%''
      = 37 # lit ''professional learning communities'' @ [37]"
    by (simp add: lit_def)
  then show ?thesis using like_contains [OF w, of s] by simp
qed

lemma script_pattern_2:
  "like (lit ''%strengthens professional%'') s \<longleftrightarrow>
     (\<exists>a m b. s = a @ m @ b
        \<and> map ascii_lower m = map ascii_lower (lit ''strengthens professional''))"
proof -
  have w: "\<forall>c \<in> set (lit ''strengthens professional''). c \<noteq> 37 \<and> c \<noteq> 95"
    by (simp add: lit_def)
  have "lit ''%strengthens professional%'' = 37 # lit ''strengthens professional'' @ [37]"
    by (simp add: lit_def)
  then show ?thesis using like_contains [OF w, of s] by simp
qed

section \<open>Opening a path that names nothing\<close>

text \<open>
  Claim C1. When nothing exists at the path (\<^verbatim>\<open>os.path.exists\<close> is false),
  \<^verbatim>\<open>check_db.py\<close> prints the single line \<^verbatim>\<open>Database not found at: <path>\<close>, raises
  nothing, opens no connection, leaves the filesystem as it was, and the process ends
  with exit code 0. \<^verbatim>\<open>check_leadership_db.py\<close> has the same guard and does the same.
\<close>

theorem check_db_not_found:
  assumes "nodes fs path = None"
  shows "check_db fs path =
           \<lparr>stdout = [[Lit ''Database not found at: '', Str (SqlText path)]],
            raised = None, conn = NoConn, fs_after = fs\<rparr>
         \<and> exit_code (check_db fs path) = 0
         \<and> check_leadership_db fs path = check_db fs path"
  using assms
  by (simp add: check_db_def check_leadership_db_def path_exists_def exit_code_def)

theorem check_db_not_found_witness:
  "nodes no_files db_path = None
   \<and> check_db no_files db_path =
       \<lparr>stdout = [[Lit ''Database not found at: '', Str (SqlText db_path)]],
        raised = None, conn = NoConn, fs_after = no_files\<rparr>
   \<and> exit_code (check_db no_files db_path) = 0"
proof -
  have h: "nodes no_files db_path = None" by (simp add: no_files_def)
  show ?thesis using h check_db_not_found [OF h] by blast
qed

section \<open>Closing the connection\<close>

text \<open>
  Claim C2, as stated: the connection is closed on every exit path, also when a fatal
  storage error propagates. It fails on a database file without a \<^verbatim>\<open>questions\<close> table:
  the second statement of \<^verbatim>\<open>check_db.py\<close> raises \<^verbatim>\<open>OperationalError\<close>, nothing catches
  it, and \<^verbatim>\<open>conn.close()\<close> at the end of the script is never reached.
\<close>

theorem check_db_leaves_connection_open:
  "raised (check_db empty_bank_files db_path)
     = Some (OperationalError ''no such table: questions'')
   \<and> conn (check_db empty_bank_files db_path) = ConnOpen"
  by (simp add: check_db_defs statement_defs files_defs bank_defs)

text \<open>
  Claim C2, amended. The scripts close the connection with a plain \<^verbatim>\<open>conn.close()\<close> as
  their last statement. So: on the "not found" return of \<^verbatim>\<open>check_db.py\<close> no connection
  was ever opened; a run that connected and completes without an exception ends with
  the connection closed; a run that ends with an exception never closes the connection,
  and leaves it open exactly when \<^verbatim>\<open>sqlite3.connect\<close> had succeeded. The same holds for
  \<^verbatim>\<open>debug_question.py\<close>, which has no "not found" return.
\<close>

theorem connection_closed_iff_completed:
  "(\<not> path_exists fs path \<longrightarrow>
      conn (check_db fs path) = NoConn \<and> raised (check_db fs path) = None)
   \<and> (path_exists fs path \<and> raised (check_db fs path) = None \<longrightarrow>
      conn (check_db fs path) = ConnClosed)
   \<and> (raised (check_db fs path) \<noteq> None \<longrightarrow>
      conn (check_db fs path) \<noteq> ConnClosed
      \<and> (conn (check_db fs path) = ConnOpen \<longleftrightarrow> (\<exists>h. fst (connect fs path) = Inr h)))
   \<and> (raised (debug_question fs path) = None \<longrightarrow>
      conn (debug_question fs path) = ConnClosed)
   \<and> (raised (debug_question fs path) \<noteq> None \<longrightarrow>
      conn (debug_question fs path) \<noteq> ConnClosed
      \<and> (conn (debug_question fs path) = ConnOpen \<longleftrightarrow> (\<exists>h. fst (connect fs path) = Inr h)))"
  using connect_cases [of fs path]
  by (auto simp: check_db_def debug_question_def split: prod.splits sum.splits option.splits)

theorem connection_closed_iff_completed_witness:
  "\<not> path_exists no_files db_path
   \<and> conn (check_db no_files db_path) = NoConn
   \<and> path_exists scenario_files db_path
   \<and> raised (check_db scenario_files db_path) = None
   \<and> conn (check_db scenario_files db_path) = ConnClosed
   \<and> raised (check_db empty_bank_files db_path) \<noteq> None
   \<and> conn (check_db empty_bank_files db_path) = ConnOpen
   \<and> raised (debug_question scenario_files db_path) = None
   \<and> conn (debug_question scenario_files db_path) = ConnClosed
   \<and> raised (debug_question no_files db_path) \<noteq> None
   \<and> conn (debug_question no_files db_path) = ConnOpen"
proof -
  have a: "\<not> path_exists no_files db_path"
    by (simp add: path_exists_def no_files_def)
  have b: "path_exists scenario_files db_path"
    by (simp add: path_exists_def scenario_files_def)
  have c: "raised (check_db scenario_files db_path) = None"
    by (simp add: check_db_defs statement_defs files_defs bank_defs)
  have d: "raised (check_db empty_bank_files db_path) \<noteq> None"
    by (simp add: check_db_defs statement_defs files_defs bank_defs)
  have d': "\<exists>h. fst (connect empty_bank_files db_path) = Inr h"
    by (simp add: connect_def files_defs)
  have e: "raised (debug_question scenario_files db_path) = None"
    by (simp add: debug_question_defs statement_defs files_defs bank_defs)
  have f: "raised (debug_question no_files db_path) \<noteq> None"
    by (simp add: debug_question_defs statement_defs files_defs bank_defs)
  have f': "\<exists>h. fst (connect no_files db_path) = Inr h"
    by (simp add: connect_def files_defs)
  show ?thesis
    using a b c d d' e f f'
      connection_closed_iff_completed [of no_files db_path]
      connection_closed_iff_completed [of scenario_files db_path]
      connection_closed_iff_completed [of empty_bank_files db_path]
    by blast
qed

section \<open>Opening must not create the file\<close>

text \<open>
  Claim C3 at its failing input: a filesystem with nothing at the path. \<^verbatim>\<open>check_db.py\<close>
  and \<^verbatim>\<open>check_leadership_db.py\<close> look before they connect and never change the
  filesystem. \<^verbatim>\<open>debug_question.py\<close> and \<^verbatim>\<open>search_question.py\<close> call
  \<^verbatim>\<open>sqlite3.connect\<close> at once: the call creates an empty database file at the path, and
  the first statement then fails because the new file has no \<^verbatim>\<open>questions\<close> table.
\<close>

theorem connect_without_guard_creates_file:
  "nodes no_files db_path = None
   \<and> nodes (fs_after (debug_question no_files db_path)) db_path = Some (DbFile empty_database)
   \<and> raised (debug_question no_files db_path)
       = Some (OperationalError ''no such table: questions'')
   \<and> nodes no_files search_path = None
   \<and> nodes (fs_after (search_question no_files search_path search_patterns)) search_path
       = Some (DbFile empty_database)
   \<and> raised (search_question no_files search_path search_patterns)
       = Some (OperationalError ''no such table: questions'')
   \<and> fs_after (check_db no_files db_path) = no_files"
  by (simp add: debug_question_defs search_question_def search_section_def statement_defs
      check_db_def path_exists_def files_defs bank_defs)

lemma check_db_keeps_files: "fs_after (check_db fs path) = fs"
  by (auto simp: check_db_def path_exists_def connect_def
      split: prod.splits sum.splits option.splits node.splits)

lemma existing_bank_not_written:
  "nodes fs path = Some n \<Longrightarrow>
   fs_after (debug_question fs path) = fs \<and> fs_after (search_question fs path pats) = fs"
  by (auto simp: debug_question_def search_question_def connect_def
      split: prod.splits sum.splits option.splits node.splits)

section \<open>Counting by type\<close>

text \<open>
  Claim C4. For every bank whose \<^verbatim>\<open>questions\<close> table has a \<^verbatim>\<open>question_type\<close> column,
  the count query returns one pair per distinct type; the counts add up to the number
  of rows of the table; every row belongs to a group, and the count of a group is the
  number of rows of that type. No row is counted twice and none is left out.
\<close>

theorem count_by_type_total:
  assumes "from_table h ''questions'' = Inr t"
    and "column t ''question_type'' = Inr i"
  shows "\<exists>counts. count_by_type h = Inr counts
           \<and> sum_list (map snd counts) = int (length (rows t))
           \<and> distinct (map fst counts)
           \<and> (\<forall>r \<in> set (rows t). r ! i \<in> fst ` set counts)
           \<and> (\<forall>(k, c) \<in> set counts. c = int (length (filter (\<lambda>r. r ! i = k) (rows t))))"
proof -
  define ks where "ks = sort_key sql_key (uniq [] (map (\<lambda>r. r ! i) (rows t)))"
  define counts where
    "counts = map (\<lambda>k. (k, int (length (filter (\<lambda>r. r ! i = k) (rows t))))) ks"
  have res: "count_by_type h = Inr counts"
    using assms by (simp add: count_by_type_def counts_def ks_def)
  have d: "distinct ks" by (simp add: ks_def distinct_uniq)
  have s: "set ks = (\<lambda>r. r ! i) ` set (rows t)" by (simp add: ks_def set_uniq)
  have fst_counts: "map fst counts = ks" by (simp add: counts_def comp_def)
  have "sum_list (map snd counts)
      = int (\<Sum>k\<leftarrow>ks. length (filter (\<lambda>r. r ! i = k) (rows t)))"
    by (simp add: counts_def comp_def sum_list_int)
  also have "\<dots> = int (length (rows t))"
    using group_sizes_total [OF d, of "\<lambda>r. r ! i" "rows t"] s by simp
  finally have total: "sum_list (map snd counts) = int (length (rows t))" .
  have cover: "\<forall>r \<in> set (rows t). r ! i \<in> fst ` set counts"
    using s fst_counts by (metis image_eqI list.set_map)
  have each: "\<forall>(k, c) \<in> set counts. c = int (length (filter (\<lambda>r. r ! i = k) (rows t)))"
    by (auto simp: counts_def)
  show ?thesis using res total d fst_counts cover each by auto
qed

theorem count_by_type_total_witness:
  "from_table (Bank mixed_bank) ''questions'' = Inr mixed_questions
   \<and> column mixed_questions ''question_type'' = Inr 1
   \<and> (\<exists>counts. count_by_type (Bank mixed_bank) = Inr counts
         \<and> sum_list (map snd counts) = 4 \<and> distinct (map fst counts))"
proof -
  have t: "from_table (Bank mixed_bank) ''questions'' = Inr mixed_questions"
    by (simp add: from_table_def opened_def mixed_bank_def)
  have i: "column mixed_questions ''question_type'' = Inr 1"
    by (simp add: column_def mixed_questions_def)
  have n: "length (rows mixed_questions) = 4"
    by (simp add: mixed_questions_def)
  show ?thesis using t i count_by_type_total [OF t i] n by auto
qed

section \<open>A bank without the \<^verbatim>\<open>subtopic\<close> column\<close>

text \<open>
  Claim C5. Take a bank whose \<^verbatim>\<open>questions\<close> table has the columns \<^verbatim>\<open>question_type\<close> and
  \<^verbatim>\<open>topic\<close> but no \<^verbatim>\<open>subtopic\<close>. The query for the distinct subtopics raises
  \<^verbatim>\<open>OperationalError\<close> (no such column); it does not return the empty list. The script
  catches it and prints \<^verbatim>\<open>No subtopic column found\<close>, and the report goes on: the output
  is that of the four sections before, the subtopic lines, and the sample section, and
  the run ends as the sample section ends. With the columns \<^verbatim>\<open>id\<close> and
  \<^verbatim>\<open>question_text\<close> present and text in the sampled questions, the run completes with
  exit code 0 and the connection closed.
\<close>

theorem subtopic_absent_reported:
  assumes db: "nodes fs path = Some (DbFile db)"
    and tbl: "from_table (Bank db) ''questions'' = Inr t"
    and cols: "''question_type'' \<in> set (columns t)" "''topic'' \<in> set (columns t)"
    and absent: "''subtopic'' \<notin> set (columns t)"
  shows "enumerate_distinct (Bank db) ''subtopic''
           = Inl (OperationalError ''no such column: subtopic'')
       \<and> subtopics_section (Bank db)
           = ([[], [Lit ''=== SUBTOPICS ===''], [Lit ''No subtopic column found'']], None)
       \<and> stdout (check_db fs path)
           = fst (schema_section (Bank db)) @ fst (types_section (Bank db))
             @ fst (counts_section (Bank db)) @ fst (topics_section (Bank db))
             @ [[], [Lit ''=== SUBTOPICS ===''], [Lit ''No subtopic column found'']]
             @ fst (samples_section (Bank db))
       \<and> raised (check_db fs path) = snd (samples_section (Bank db))
       \<and> (column t ''id'' = Inr a \<and> column t ''question_text'' = Inr k
            \<and> map (\<lambda>r. r ! k) (take 3 (rows t)) = map SqlText texts \<longrightarrow>
            raised (check_db fs path) = None \<and> exit_code (check_db fs path) = 0
            \<and> conn (check_db fs path) = ConnClosed)"
proof -
  let ?h = "Bank db"
  have enum: "enumerate_distinct ?h ''subtopic''
      = Inl (OperationalError ''no such column: subtopic'')"
    using tbl column_absent [OF absent] by (simp add: enumerate_distinct_def)
  have sub: "subtopics_section ?h
      = ([[], [Lit ''=== SUBTOPICS ===''], [Lit ''No subtopic column found'']], None)"
    by (simp add: subtopics_section_def enum)
  have schema: "snd (schema_section ?h) = None"
    by (simp add: schema_section_def describe_schema_def opened_def)
  obtain i where i: "column t ''question_type'' = Inr i"
    using column_present [OF cols(1)] by blast
  obtain j where j: "column t ''topic'' = Inr j"
    using column_present [OF cols(2)] by blast
  have types: "snd (types_section ?h) = None"
    using tbl i by (simp add: types_section_def enumerate_distinct_def)
  have counts: "snd (counts_section ?h) = None"
    using tbl i by (simp add: counts_section_def count_by_type_def)
  have topics: "snd (topics_section ?h) = None"
    using tbl j by (simp add: topics_section_def enumerate_distinct_def)
  have conn: "connect fs path = (Inr ?h, fs)"
    using db by (rule connect_bank)
  have run: "run_sections
       [schema_section ?h, types_section ?h, counts_section ?h,
        topics_section ?h, subtopics_section ?h, samples_section ?h]
     = (fst (schema_section ?h) @ fst (types_section ?h) @ fst (counts_section ?h)
        @ fst (topics_section ?h)
        @ [[], [Lit ''=== SUBTOPICS ===''], [Lit ''No subtopic column found'']]
        @ fst (samples_section ?h),
        snd (samples_section ?h))"
    using run_sections_all_ok [of "fst (schema_section ?h)" "fst (types_section ?h)"
        "fst (counts_section ?h)" "fst (topics_section ?h)"
        "[[], [Lit ''=== SUBTOPICS ===''], [Lit ''No subtopic column found'']]"
        "samples_section ?h"]
      schema types counts topics sub
    by (metis prod.collapse)
  have ex: "path_exists fs path" using db by (simp add: path_exists_def)
  have out: "stdout (check_db fs path)
      = fst (schema_section ?h) @ fst (types_section ?h) @ fst (counts_section ?h)
        @ fst (topics_section ?h)
        @ [[], [Lit ''=== SUBTOPICS ===''], [Lit ''No subtopic column found'']]
        @ fst (samples_section ?h)"
    using ex conn run by (simp add: check_db_def split: option.splits)
  have rai: "raised (check_db fs path) = snd (samples_section ?h)"
    using ex conn run by (simp add: check_db_def split: option.splits)
  have closed: "snd (samples_section ?h) = None \<longrightarrow>
      exit_code (check_db fs path) = 0 \<and> conn (check_db fs path) = ConnClosed"
    using ex conn run by (simp add: check_db_def exit_code_def split: option.splits)
  have fin: "column t ''id'' = Inr a \<and> column t ''question_text'' = Inr k
            \<and> map (\<lambda>r. r ! k) (take 3 (rows t)) = map SqlText texts \<longrightarrow>
            raised (check_db fs path) = None \<and> exit_code (check_db fs path) = 0
            \<and> conn (check_db fs path) = ConnClosed"
  proof (intro impI, elim conjE)
    assume a: "column t ''id'' = Inr a" and k: "column t ''question_text'' = Inr k"
      and sampled: "map (\<lambda>r. r ! k) (take 3 (rows t)) = map SqlText texts"
    let ?samples = "map (\<lambda>r. (r ! a, r ! i, r ! k)) (take 3 (rows t))"
    have sq: "sample_questions ?h 3 = Inr ?samples"
      using tbl a i k by (simp add: sample_questions_def)
    have "map (\<lambda>(qid, qtype, qtext). qtext) ?samples = map SqlText texts"
      using sampled by (simp add: comp_def)
    then have "snd (print_samples ?samples) = None"
      using print_samples_previews [of ?samples texts] by simp
    then have "snd (samples_section ?h) = None"
      by (cases "print_samples ?samples") (simp add: samples_section_def sq)
    with rai closed show "raised (check_db fs path) = None \<and> exit_code (check_db fs path) = 0
            \<and> conn (check_db fs path) = ConnClosed" by simp
  qed
  show ?thesis using enum sub out rai fin by blast
qed

theorem subtopic_absent_reported_witness:
  "nodes scenario_files db_path = Some (DbFile scenario_bank)
   \<and> from_table (Bank scenario_bank) ''questions'' = Inr scenario_questions
   \<and> ''question_type'' \<in> set (columns scenario_questions)
   \<and> ''topic'' \<in> set (columns scenario_questions)
   \<and> ''subtopic'' \<notin> set (columns scenario_questions)
   \<and> enumerate_distinct (Bank scenario_bank) ''subtopic''
       = Inl (OperationalError ''no such column: subtopic'')
   \<and> subtopics_section (Bank scenario_bank)
       = ([[], [Lit ''=== SUBTOPICS ===''], [Lit ''No subtopic column found'']], None)
   \<and> raised (check_db scenario_files db_path) = None
   \<and> exit_code (check_db scenario_files db_path) = 0
   \<and> conn (check_db scenario_files db_path) = ConnClosed"
proof -
  have db: "nodes scenario_files db_path = Some (DbFile scenario_bank)"
    by (simp add: scenario_files_def)
  have tbl: "from_table (Bank scenario_bank) ''questions'' = Inr scenario_questions"
    by (simp add: from_table_def opened_def scenario_bank_def)
  have c1: "''question_type'' \<in> set (columns scenario_questions)"
    by (simp add: scenario_questions_def)
  have c2: "''topic'' \<in> set (columns scenario_questions)"
    by (simp add: scenario_questions_def)
  have c3: "''subtopic'' \<notin> set (columns scenario_questions)"
    by (simp add: scenario_questions_def)
  have a: "column scenario_questions ''id'' = Inr 0"
    by (simp add: column_def scenario_questions_def)
  have k: "column scenario_questions ''question_text'' = Inr 3"
    by (simp add: column_def scenario_questions_def)
  have sampled: "map (\<lambda>r. r ! 3) (take 3 (rows scenario_questions))
      = map SqlText [lit ''What is leadership?'']"
    by (simp add: scenario_questions_def)
  show ?thesis
    using db tbl c1 c2 c3 a k sampled
      subtopic_absent_reported [OF db tbl c1 c2 c3, of 0 3 "[lit ''What is leadership?'']"]
    by blast
qed

section \<open>Sampling questions\<close>

text \<open>
  Claim C6. For every bank whose \<^verbatim>\<open>questions\<close> table has the columns \<^verbatim>\<open>id\<close>,
  \<^verbatim>\<open>question_type\<close> and \<^verbatim>\<open>question_text\<close>, the sample query with limit 3 returns the
  first rows of the table: at most 3, and fewer only when the table has fewer than 3
  rows. The preview of a question text is its first 100 characters (all of it when it
  is shorter). A character is a code point, so the cut never falls inside a character:
  whatever bytes each character is encoded to, the encoded preview is a prefix of the
  encoded text made of whole characters. When the sampled texts are text, the section
  prints one line per sample with that preview.
\<close>

theorem sample_questions_bounded:
  assumes tbl: "from_table h ''questions'' = Inr t"
    and i: "column t ''id'' = Inr i"
    and j: "column t ''question_type'' = Inr j"
    and k: "column t ''question_text'' = Inr k"
  shows "\<exists>samples. sample_questions h 3 = Inr samples
       \<and> samples = map (\<lambda>r. (r ! i, r ! j, r ! k)) (take 3 (rows t))
       \<and> length samples \<le> 3
       \<and> length samples = min 3 (length (rows t))
       \<and> (length samples < 3 \<longrightarrow> length (rows t) < 3)
       \<and> (\<forall>(qid, qtype, qtext) \<in> set samples. \<forall>s. qtext = SqlText s \<longrightarrow>
             slice_to 100 qtext = Inr (SqlText (take 100 s))
             \<and> length (take 100 s) = min 100 (length s)
             \<and> prefix (take 100 s) s
             \<and> (\<forall>enc :: nat \<Rightarrow> nat list.
                   prefix (concat (map enc (take 100 s))) (concat (map enc s))))
       \<and> (map (\<lambda>(qid, qtype, qtext). qtext) samples = map SqlText texts \<longrightarrow>
             samples_section h =
               ([[], [Lit ''=== SAMPLE QUESTIONS ==='']]
                  @ map (\<lambda>((qid, qtype, qtext), s). sample_line qid qtype (SqlText (take 100 s)))
                      (zip samples texts),
                None))"
proof -
  define samples where "samples = map (\<lambda>r. (r ! i, r ! j, r ! k)) (take 3 (rows t))"
  have res: "sample_questions h 3 = Inr samples"
    using assms by (simp add: sample_questions_def samples_def)
  have len: "length samples = min 3 (length (rows t))"
    by (simp add: samples_def min.commute)
  have prev: "\<forall>(qid, qtype, qtext) \<in> set samples. \<forall>s. qtext = SqlText s \<longrightarrow>
             slice_to 100 qtext = Inr (SqlText (take 100 s))
             \<and> length (take 100 s) = min 100 (length s)
             \<and> prefix (take 100 s) s
             \<and> (\<forall>enc :: nat \<Rightarrow> nat list.
                   prefix (concat (map enc (take 100 s))) (concat (map enc s)))"
    by (auto simp: take_is_prefix prefix_concat_take min.commute)
  have sect: "map (\<lambda>(qid, qtype, qtext). qtext) samples = map SqlText texts \<longrightarrow>
             samples_section h =
               ([[], [Lit ''=== SAMPLE QUESTIONS ==='']]
                  @ map (\<lambda>((qid, qtype, qtext), s). sample_line qid qtype (SqlText (take 100 s)))
                      (zip samples texts),
                None)"
    using print_samples_previews [of samples texts] by (simp add: samples_section_def res)
  show ?thesis
    using res len prev sect samples_def by (intro exI [of _ samples]) auto
qed

theorem sample_questions_bounded_witness:
  "from_table (Bank mixed_bank) ''questions'' = Inr mixed_questions
   \<and> column mixed_questions ''id'' = Inr 0
   \<and> column mixed_questions ''question_type'' = Inr 1
   \<and> column mixed_questions ''question_text'' = Inr 3
   \<and> length (rows mixed_questions) = 4
   \<and> (\<exists>samples. sample_questions (Bank mixed_bank) 3 = Inr samples \<and> length samples = 3)
   \<and> slice_to 100 (SqlText (replicate 120 233)) = Inr (SqlText (replicate 100 233))"
proof -
  have t: "from_table (Bank mixed_bank) ''questions'' = Inr mixed_questions"
    by (simp add: from_table_def opened_def mixed_bank_def)
  have i: "column mixed_questions ''id'' = Inr 0"
    by (simp add: column_def mixed_questions_def)
  have j: "column mixed_questions ''question_type'' = Inr 1"
    by (simp add: column_def mixed_questions_def)
  have k: "column mixed_questions ''question_text'' = Inr 3"
    by (simp add: column_def mixed_questions_def)
  have n: "length (rows mixed_questions) = 4"
    by (simp add: mixed_questions_def)
  have s: "slice_to 100 (SqlText (replicate 120 233)) = Inr (SqlText (replicate 100 233))"
    by simp
  from sample_questions_bounded [OF t i j k] n
  have "\<exists>samples. sample_questions (Bank mixed_bank) 3 = Inr samples \<and> length samples = 3"
    by auto
  with t i j k n s show ?thesis by blast
qed

section \<open>A question without options\<close>

text \<open>
  Claim C7. For every bank with an \<^verbatim>\<open>options\<close> table (columns \<^verbatim>\<open>id\<close>, \<^verbatim>\<open>question_id\<close>,
  \<^verbatim>\<open>option_text\<close>, \<^verbatim>\<open>is_correct\<close>) and every question id that no option row refers to,
  the options query returns the empty list and raises nothing.
\<close>

theorem load_options_for_no_options:
  assumes tbl: "from_table h ''options'' = Inr t"
    and cols: "{''option_text'', ''is_correct'', ''question_id'', ''id''} \<subseteq> set (columns t)"
    and q: "column t ''question_id'' = Inr q"
    and none: "\<forall>r \<in> set (rows t). \<not> sql_equals (r ! q) qid"
  shows "load_options_for h qid = Inr []"
proof -
  obtain a where a: "column t ''option_text'' = Inr a"
    using cols column_present [of "''option_text''" t] by auto
  obtain b where b: "column t ''is_correct'' = Inr b"
    using cols column_present [of "''is_correct''" t] by auto
  obtain i where i: "column t ''id'' = Inr i"
    using cols column_present [of "''id''" t] by auto
  show ?thesis
    using tbl a b q i filter_none [OF none] by (simp add: load_options_for_def)
qed

theorem load_options_for_no_options_witness:
  "from_table (Bank mixed_bank) ''options'' = Inr scenario_options
   \<and> {''option_text'', ''is_correct'', ''question_id'', ''id''} \<subseteq> set (columns scenario_options)
   \<and> column scenario_options ''question_id'' = Inr 1
   \<and> \<not> sql_equals (SqlInt 1) (SqlInt 2)
   \<and> load_options_for (Bank mixed_bank) (SqlInt 2) = Inr []"
proof -
  have t: "from_table (Bank mixed_bank) ''options'' = Inr scenario_options"
    by (simp add: from_table_def opened_def mixed_bank_def)
  have c: "{''option_text'', ''is_correct'', ''question_id'', ''id''}
      \<subseteq> set (columns scenario_options)"
    by (simp add: scenario_options_def)
  have q: "column scenario_options ''question_id'' = Inr 1"
    by (simp add: column_def scenario_options_def)
  have n: "\<forall>r \<in> set (rows scenario_options). \<not> sql_equals (r ! 1) (SqlInt 2)"
    by (simp add: scenario_options_def sql_equals_def)
  have e: "\<not> sql_equals (SqlInt 1) (SqlInt 2)"
    by (simp add: sql_equals_def)
  show ?thesis
    using t c q e load_options_for_no_options [OF t c q n] by blast
qed

section \<open>The order of the options\<close>

text \<open>
  Claim C8, as stated, ends with: in general, options are returned in creation
  (insertion) order. The statement orders them by \<^verbatim>\<open>id\<close>. In the bank below the
  \<^verbatim>\<open>id\<close> column of the options is declared \<^verbatim>\<open>INT PRIMARY KEY\<close>, which is not an alias
  of the rowid, so the table keeps its rows in the order of their creation:
  "Trait-based" was created first, with id 2, and "Situational" second, with id 1. The
  query returns "Situational" first.
\<close>

theorem options_not_in_insertion_order:
  "rows exchanged_options =
     [[SqlInt 2, SqlInt 1, SqlText (lit ''Trait-based''), SqlInt 0],
      [SqlInt 1, SqlInt 1, SqlText (lit ''Situational''), SqlInt 1]]
   \<and> load_options_for (Bank exchanged_bank) (SqlInt 1)
       = Inr [(SqlText (lit ''Situational''), SqlInt 1),
              (SqlText (lit ''Trait-based''), SqlInt 0)]"
  by (simp add: statement_defs bank_defs)

text \<open>
  Claim C8, amended. In the scenario bank (one question with id 1, type MCQ and text
  "What is leadership?"; the options "Trait-based", not correct, with id 1 and
  "Situational", correct, with id 2) the sample query returns the one question, with
  limit 1 as with the script's limit 3, and the options query for question 1 returns
  "Trait-based" and then "Situational", the order of their ids; their flags are false
  and true for Python. In general the options of a question are returned in ascending
  order of their \<^verbatim>\<open>id\<close>, each exactly once. When the ids of these options are distinct,
  the order depends on the ids alone: two tables that hold the same rows, in whatever
  order they were created or are kept, give the same result.
\<close>

theorem options_ordered_by_id:
  "sample_questions (Bank scenario_bank) 1
     = Inr [(SqlInt 1, SqlText (lit ''MCQ''), SqlText (lit ''What is leadership?''))]
   \<and> sample_questions (Bank scenario_bank) 3
     = Inr [(SqlInt 1, SqlText (lit ''MCQ''), SqlText (lit ''What is leadership?''))]
   \<and> load_options_for (Bank scenario_bank) (SqlInt 1)
     = Inr [(SqlText (lit ''Trait-based''), SqlInt 0), (SqlText (lit ''Situational''), SqlInt 1)]
   \<and> \<not> truthy (SqlInt 0) \<and> truthy (SqlInt 1)
   \<and> (from_table h ''options'' = Inr t \<and> column t ''option_text'' = Inr a
        \<and> column t ''is_correct'' = Inr b \<and> column t ''question_id'' = Inr q
        \<and> column t ''id'' = Inr i \<longrightarrow>
        (\<exists>ys. load_options_for h qid = Inr (map (\<lambda>r. (r ! a, r ! b)) ys)
           \<and> sorted (map (\<lambda>r. sql_key (r ! i)) ys)
           \<and> mset ys = mset (filter (\<lambda>r. sql_equals (r ! q) qid) (rows t)))
        \<and> (from_table h' ''options'' = Inr t' \<and> columns t' = columns t
             \<and> mset (rows t') = mset (rows t)
             \<and> distinct (map (\<lambda>r. r ! i) (filter (\<lambda>r. sql_equals (r ! q) qid) (rows t)))
             \<longrightarrow> load_options_for h' qid = load_options_for h qid))"
proof -
  have s1: "sample_questions (Bank scenario_bank) 1
     = Inr [(SqlInt 1, SqlText (lit ''MCQ''), SqlText (lit ''What is leadership?''))]"
    by (simp add: statement_defs bank_defs)
  have s3: "sample_questions (Bank scenario_bank) 3
     = Inr [(SqlInt 1, SqlText (lit ''MCQ''), SqlText (lit ''What is leadership?''))]"
    by (simp add: statement_defs bank_defs)
  have lo: "load_options_for (Bank scenario_bank) (SqlInt 1)
     = Inr [(SqlText (lit ''Trait-based''), SqlInt 0), (SqlText (lit ''Situational''), SqlInt 1)]"
    by (simp add: statement_defs bank_defs)
  have gen: "from_table h ''options'' = Inr t \<and> column t ''option_text'' = Inr a
        \<and> column t ''is_correct'' = Inr b \<and> column t ''question_id'' = Inr q
        \<and> column t ''id'' = Inr i \<longrightarrow>
        (\<exists>ys. load_options_for h qid = Inr (map (\<lambda>r. (r ! a, r ! b)) ys)
           \<and> sorted (map (\<lambda>r. sql_key (r ! i)) ys)
           \<and> mset ys = mset (filter (\<lambda>r. sql_equals (r ! q) qid) (rows t)))
        \<and> (from_table h' ''options'' = Inr t' \<and> columns t' = columns t
             \<and> mset (rows t') = mset (rows t)
             \<and> distinct (map (\<lambda>r. r ! i) (filter (\<lambda>r. sql_equals (r ! q) qid) (rows t)))
             \<longrightarrow> load_options_for h' qid = load_options_for h qid)"
  proof (intro impI, elim conjE)
    assume hyps: "from_table h ''options'' = Inr t" "column t ''option_text'' = Inr a"
      "column t ''is_correct'' = Inr b" "column t ''question_id'' = Inr q"
      "column t ''id'' = Inr i"
    let ?P = "\<lambda>r. sql_equals (r ! q) qid"
    let ?key = "\<lambda>r. sql_key (r ! i)"
    have res: "load_options_for h qid
        = Inr (map (\<lambda>r. (r ! a, r ! b)) (sort_key ?key (filter ?P (rows t))))"
      using hyps by (simp add: load_options_for_def)
    have ex: "\<exists>ys. load_options_for h qid = Inr (map (\<lambda>r. (r ! a, r ! b)) ys)
           \<and> sorted (map ?key ys) \<and> mset ys = mset (filter ?P (rows t))"
      using res by (intro exI [of _ "sort_key ?key (filter ?P (rows t))"]) simp
    have same: "from_table h' ''options'' = Inr t' \<and> columns t' = columns t
             \<and> mset (rows t') = mset (rows t)
             \<and> distinct (map (\<lambda>r. r ! i) (filter ?P (rows t)))
             \<longrightarrow> load_options_for h' qid = load_options_for h qid"
    proof (intro impI, elim conjE)
      assume t': "from_table h' ''options'' = Inr t'" and cols: "columns t' = columns t"
        and perm: "mset (rows t') = mset (rows t)"
        and ids: "distinct (map (\<lambda>r. r ! i) (filter ?P (rows t)))"
      have cols': "column t' c = column t c" for c
        by (simp add: column_def cols)
      have res': "load_options_for h' qid
          = Inr (map (\<lambda>r. (r ! a, r ! b)) (sort_key ?key (filter ?P (rows t'))))"
        using t' hyps by (simp add: load_options_for_def cols')
      have p: "mset (filter ?P (rows t)) = mset (filter ?P (rows t'))"
        using perm by simp
      have d: "distinct (map ?key (filter ?P (rows t)))"
        using ids by (rule distinct_sql_key)
      have "sort_key ?key (filter ?P (rows t)) = sort_key ?key (filter ?P (rows t'))"
        using p d by (rule sort_key_permutation)
      with res res' show "load_options_for h' qid = load_options_for h qid" by simp
    qed
    show "(\<exists>ys. load_options_for h qid = Inr (map (\<lambda>r. (r ! a, r ! b)) ys)
           \<and> sorted (map ?key ys) \<and> mset ys = mset (filter ?P (rows t)))
        \<and> (from_table h' ''options'' = Inr t' \<and> columns t' = columns t
             \<and> mset (rows t') = mset (rows t)
             \<and> distinct (map (\<lambda>r. r ! i) (filter ?P (rows t)))
             \<longrightarrow> load_options_for h' qid = load_options_for h qid)"
      using ex same by blast
  qed
  show ?thesis using s1 s3 lo gen by simp
qed

theorem options_ordered_by_id_witness:
  "from_table (Bank scenario_bank) ''options'' = Inr scenario_options
   \<and> column scenario_options ''option_text'' = Inr 2
   \<and> column scenario_options ''is_correct'' = Inr 3
   \<and> column scenario_options ''question_id'' = Inr 1
   \<and> column scenario_options ''id'' = Inr 0
   \<and> from_table (Bank reversed_bank) ''options'' = Inr reversed_options
   \<and> columns reversed_options = columns scenario_options
   \<and> mset (rows reversed_options) = mset (rows scenario_options)
   \<and> rows reversed_options = rev (rows scenario_options)
   \<and> distinct (map (\<lambda>r. r ! 0)
        (filter (\<lambda>r. sql_equals (r ! 1) (SqlInt 1)) (rows scenario_options)))
   \<and> load_options_for (Bank reversed_bank) (SqlInt 1)
       = load_options_for (Bank scenario_bank) (SqlInt 1)
   \<and> load_options_for (Bank reversed_bank) (SqlInt 1)
       = Inr [(SqlText (lit ''Trait-based''), SqlInt 0), (SqlText (lit ''Situational''), SqlInt 1)]"
proof -
  have t: "from_table (Bank scenario_bank) ''options'' = Inr scenario_options"
    by (simp add: from_table_def opened_def scenario_bank_def)
  have a: "column scenario_options ''option_text'' = Inr 2"
    by (simp add: column_def scenario_options_def)
  have b: "column scenario_options ''is_correct'' = Inr 3"
    by (simp add: column_def scenario_options_def)
  have q: "column scenario_options ''question_id'' = Inr 1"
    by (simp add: column_def scenario_options_def)
  have i: "column scenario_options ''id'' = Inr 0"
    by (simp add: column_def scenario_options_def)
  have t': "from_table (Bank reversed_bank) ''options'' = Inr reversed_options"
    by (simp add: from_table_def opened_def reversed_bank_def)
  have c: "columns reversed_options = columns scenario_options"
    by (simp add: reversed_options_def scenario_options_def)
  have r: "rows reversed_options = rev (rows scenario_options)"
    by (simp add: reversed_options_def scenario_options_def)
  have p: "mset (rows reversed_options) = mset (rows scenario_options)"
    by (simp add: r)
  have d: "distinct (map (\<lambda>r. r ! 0)
        (filter (\<lambda>r. sql_equals (r ! 1) (SqlInt 1)) (rows scenario_options)))"
    by (simp add: scenario_options_def sql_equals_def)
  note inst = options_ordered_by_id
    [of "Bank scenario_bank" scenario_options 2 3 1 0 "SqlInt 1" "Bank reversed_bank"
      reversed_options]
  have same: "load_options_for (Bank reversed_bank) (SqlInt 1)
       = load_options_for (Bank scenario_bank) (SqlInt 1)"
    using inst t a b q i t' c p d by blast
  have lo: "load_options_for (Bank scenario_bank) (SqlInt 1)
     = Inr [(SqlText (lit ''Trait-based''), SqlInt 0), (SqlText (lit ''Situational''), SqlInt 1)]"
    using inst by blast
  show ?thesis using t a b q i t' c p r d same lo by simp
qed

section \<open>Searching question texts\<close>

text \<open>
  Claim C9. For every bank whose \<^verbatim>\<open>questions\<close> table has the columns \<^verbatim>\<open>id\<close> and
  \<^verbatim>\<open>question_text\<close>, and for every list of patterns, the search returns the pairs
  (id, text) of the rows whose text matches one of the patterns under LIKE, in table
  order: zero or more. When no row matches, the result is the empty list and not an
  error: \<^verbatim>\<open>search_question.py\<close> prints nothing, closes the connection and ends with
  exit code 0. For the two patterns of the script (which are string literals unless the
  table has columns of those names) a text matches exactly when it contains
  "professional learning communities" or "strengthens professional", ASCII letters
  compared without regard to case.
\<close>

theorem search_questions_zero_or_more:
  assumes db: "nodes fs path = Some (DbFile db)"
    and tbl: "from_table (Bank db) ''questions'' = Inr t"
    and i: "column t ''id'' = Inr i"
    and k: "column t ''question_text'' = Inr k"
  shows "search_questions (Bank db) pats
           = Inr (map (\<lambda>r. (r ! i, r ! k)) (filter (row_matches t k pats) (rows t)))
       \<and> ((\<forall>r \<in> set (rows t). \<not> row_matches t k pats r) \<longrightarrow>
            search_questions (Bank db) pats = Inr []
            \<and> search_question fs path pats
                = \<lparr>stdout = [], raised = None, conn = ConnClosed, fs_after = fs\<rparr>
            \<and> exit_code (search_question fs path pats) = 0)
       \<and> ((\<forall>p \<in> set search_patterns. p \<notin> set (columns t)) \<longrightarrow>
            (\<forall>r s. r ! k = SqlText s \<longrightarrow>
               row_matches t k search_patterns r =
                 ((\<exists>a m b. s = a @ m @ b \<and> map ascii_lower m
                      = map ascii_lower (lit ''professional learning communities''))
                  \<or> (\<exists>a m b. s = a @ m @ b \<and> map ascii_lower m
                      = map ascii_lower (lit ''strengthens professional'')))))"
proof -
  have res: "search_questions (Bank db) pats
           = Inr (map (\<lambda>r. (r ! i, r ! k)) (filter (row_matches t k pats) (rows t)))"
    using tbl i k by (simp add: search_questions_def)
  have conn: "connect fs path = (Inr (Bank db), fs)"
    using db by (rule connect_bank)
  have none: "(\<forall>r \<in> set (rows t). \<not> row_matches t k pats r) \<longrightarrow>
            search_questions (Bank db) pats = Inr []
            \<and> search_question fs path pats
                = \<lparr>stdout = [], raised = None, conn = ConnClosed, fs_after = fs\<rparr>
            \<and> exit_code (search_question fs path pats) = 0"
  proof
    assume "\<forall>r \<in> set (rows t). \<not> row_matches t k pats r"
    then have "filter (row_matches t k pats) (rows t) = []" by (rule filter_none)
    with res have empty: "search_questions (Bank db) pats = Inr []" by simp
    then have "search_question fs path pats
        = \<lparr>stdout = [], raised = None, conn = ConnClosed, fs_after = fs\<rparr>"
      using conn by (simp add: search_question_def search_section_def)
    with empty show "search_questions (Bank db) pats = Inr []
            \<and> search_question fs path pats
                = \<lparr>stdout = [], raised = None, conn = ConnClosed, fs_after = fs\<rparr>
            \<and> exit_code (search_question fs path pats) = 0"
      by (simp add: exit_code_def)
  qed
  have sem: "(\<forall>p \<in> set search_patterns. p \<notin> set (columns t)) \<longrightarrow>
            (\<forall>r s. r ! k = SqlText s \<longrightarrow>
               row_matches t k search_patterns r =
                 ((\<exists>a m b. s = a @ m @ b \<and> map ascii_lower m
                      = map ascii_lower (lit ''professional learning communities''))
                  \<or> (\<exists>a m b. s = a @ m @ b \<and> map ascii_lower m
                      = map ascii_lower (lit ''strengthens professional''))))"
  proof (intro impI allI)
    fix r s
    assume lits: "\<forall>p \<in> set search_patterns. p \<notin> set (columns t)"
      and cell: "r ! k = SqlText s"
    have p1: "double_quoted t ''%professional learning communities%'' r
        = SqlText (lit ''%professional learning communities%'')"
      using lits by (intro double_quoted_literal) (simp add: search_patterns_def)
    have p2: "double_quoted t ''%strengthens professional%'' r
        = SqlText (lit ''%strengthens professional%'')"
      using lits by (intro double_quoted_literal) (simp add: search_patterns_def)
    have "row_matches t k search_patterns r =
        (like (lit ''%professional learning communities%'') s
         \<or> like (lit ''%strengthens professional%'') s)"
      by (simp add: row_matches_def search_patterns_def p1 p2 cell sql_like_def)
    then show "row_matches t k search_patterns r =
                 ((\<exists>a m b. s = a @ m @ b \<and> map ascii_lower m
                      = map ascii_lower (lit ''professional learning communities''))
                  \<or> (\<exists>a m b. s = a @ m @ b \<and> map ascii_lower m
                      = map ascii_lower (lit ''strengthens professional'')))"
      by (simp only: script_pattern_1 script_pattern_2)
  qed
  show ?thesis using res none sem by blast
qed

theorem search_questions_zero_or_more_witness:
  "nodes scenario_files db_path = Some (DbFile scenario_bank)
   \<and> from_table (Bank scenario_bank) ''questions'' = Inr scenario_questions
   \<and> column scenario_questions ''id'' = Inr 0
   \<and> column scenario_questions ''question_text'' = Inr 3
   \<and> search_questions (Bank scenario_bank) [''%leadership%'']
       = Inr [(SqlInt 1, SqlText (lit ''What is leadership?''))]
   \<and> ''%professional learning communities%'' \<notin> set (columns scenario_questions)
   \<and> ''%strengthens professional%'' \<notin> set (columns scenario_questions)
   \<and> search_questions (Bank scenario_bank) search_patterns = Inr []
   \<and> search_question scenario_files db_path search_patterns
       = \<lparr>stdout = [], raised = None, conn = ConnClosed, fs_after = scenario_files\<rparr>
   \<and> exit_code (search_question scenario_files db_path search_patterns) = 0"
proof -
  have db: "nodes scenario_files db_path = Some (DbFile scenario_bank)"
    by (simp add: scenario_files_def)
  have tbl: "from_table (Bank scenario_bank) ''questions'' = Inr scenario_questions"
    by (simp add: from_table_def opened_def scenario_bank_def)
  have i: "column scenario_questions ''id'' = Inr 0"
    by (simp add: column_def scenario_questions_def)
  have k: "column scenario_questions ''question_text'' = Inr 3"
    by (simp add: column_def scenario_questions_def)
  have c1: "''%professional learning communities%'' \<notin> set (columns scenario_questions)"
    by (simp add: scenario_questions_def)
  have c2: "''%strengthens professional%'' \<notin> set (columns scenario_questions)"
    by (simp add: scenario_questions_def)
  have lits: "\<forall>p \<in> set search_patterns. p \<notin> set (columns scenario_questions)"
    using c1 c2 by (simp add: search_patterns_def)
  have parts: "lit ''What is leadership?'' = lit ''What is '' @ lit ''leadership'' @ lit ''?''"
    by (simp add: lit_def)
  have w: "\<forall>c \<in> set (lit ''leadership''). c \<noteq> 37 \<and> c \<noteq> 95"
    by (simp add: lit_def)
  have "like (37 # lit ''leadership'' @ [37]) (lit ''What is leadership?'')"
    using like_contains [OF w, of "lit ''What is leadership?''"] parts by blast
  moreover have "lit ''%leadership%'' = 37 # lit ''leadership'' @ [37]"
    by (simp add: lit_def)
  ultimately have hit: "like (lit ''%leadership%'') (lit ''What is leadership?'')"
    by simp
  have found: "filter (row_matches scenario_questions 3 [''%leadership%''])
                 (rows scenario_questions) = rows scenario_questions"
    using hit
    by (simp add: row_matches_def double_quoted_def sql_like_def scenario_questions_def)
  have first: "search_questions (Bank scenario_bank) [''%leadership%'']
       = Inr [(SqlInt 1, SqlText (lit ''What is leadership?''))]"
    using search_questions_zero_or_more [OF db tbl i k, of "[''%leadership%'']"] found
    by (simp add: scenario_questions_def)
  have short: "length (lit ''What is leadership?'') = 19"
    by (simp add: lit_def)
  have no1: "\<not> (\<exists>a m b. lit ''What is leadership?'' = a @ m @ b \<and> map ascii_lower m
                      = map ascii_lower (lit ''professional learning communities''))"
  proof
    assume "\<exists>a m b. lit ''What is leadership?'' = a @ m @ b \<and> map ascii_lower m
                      = map ascii_lower (lit ''professional learning communities'')"
    then obtain a m b where e: "lit ''What is leadership?'' = a @ m @ b"
      and m: "map ascii_lower m = map ascii_lower (lit ''professional learning communities'')"
      by blast
    from m have "length m = length (lit ''professional learning communities'')"
      by (metis length_map)
    then have "19 < length m" by (simp add: lit_def)
    moreover from e short have "length a + length m + length b = 19"
      by (metis length_append add.assoc)
    ultimately show False by simp
  qed
  have no2: "\<not> (\<exists>a m b. lit ''What is leadership?'' = a @ m @ b \<and> map ascii_lower m
                      = map ascii_lower (lit ''strengthens professional''))"
  proof
    assume "\<exists>a m b. lit ''What is leadership?'' = a @ m @ b \<and> map ascii_lower m
                      = map ascii_lower (lit ''strengthens professional'')"
    then obtain a m b where e: "lit ''What is leadership?'' = a @ m @ b"
      and m: "map ascii_lower m = map ascii_lower (lit ''strengthens professional'')"
      by blast
    from m have "length m = length (lit ''strengthens professional'')"
      by (metis length_map)
    then have "19 < length m" by (simp add: lit_def)
    moreover from e short have "length a + length m + length b = 19"
      by (metis length_append add.assoc)
    ultimately show False by simp
  qed
  have cell: "[SqlInt 1, SqlText (lit ''MCQ''), SqlText (lit ''Leadership''),
               SqlText (lit ''What is leadership?'')] ! 3 = SqlText (lit ''What is leadership?'')"
    by simp
  have miss: "\<forall>r \<in> set (rows scenario_questions).
      \<not> row_matches scenario_questions 3 search_patterns r"
    using search_questions_zero_or_more [OF db tbl i k, of search_patterns] lits cell no1 no2
    by (simp add: scenario_questions_def)
  show ?thesis
    using db tbl i k first c1 c2 miss
      search_questions_zero_or_more [OF db tbl i k, of search_patterns]
    by blast
qed

section \<open>The first question is missing\<close>

text \<open>
  Claim C10. Take a bank whose \<^verbatim>\<open>questions\<close> table has an \<^verbatim>\<open>id\<close> column. When no row has
  id 1, \<^verbatim>\<open>fetchone()\<close> gives \<^verbatim>\<open>None\<close>, zipping the column names with it raises
  \<^verbatim>\<open>TypeError\<close>, and \<^verbatim>\<open>debug_question.py\<close> ends there: only the first header is printed,
  the options and match pairs are never queried, the connection stays open and the
  exit code is 1. When the row exists and there are no options and no match pairs for
  it, the same script reports both as empty lists and ends with exit code 0.
\<close>

theorem missing_first_question_is_fatal:
  assumes db: "nodes fs path = Some (DbFile db)"
    and tbl: "from_table (Bank db) ''questions'' = Inr t"
    and i: "column t ''id'' = Inr i"
  shows "((\<forall>r \<in> set (rows t). \<not> sql_equals (r ! i) (SqlInt 1)) \<longrightarrow>
            first_question (Bank db) = Inr (columns t, None)
            \<and> debug_question fs path =
                \<lparr>stdout = [[Lit ''=== FIRST QUESTION DATA ==='']],
                 raised = Some (TypeError ''NoneType object is not iterable''),
                 conn = ConnOpen, fs_after = fs\<rparr>
            \<and> exit_code (debug_question fs path) = 1)
       \<and> (filter (\<lambda>r. sql_equals (r ! i) (SqlInt 1)) (rows t) = question # others
            \<and> load_options_for (Bank db) (SqlInt 1) = Inr []
            \<and> load_match_pairs_for (Bank db) (SqlInt 1) = Inr [] \<longrightarrow>
            debug_question fs path =
                \<lparr>stdout =
                   [[Lit ''=== FIRST QUESTION DATA ===''],
                    [Lit ''Question data:'', Lit '' '', Repr_dict (zip (columns t) question)],
                    [], [Lit ''=== OPTIONS FOR QUESTION 1 ===''],
                    [Lit ''Options:'', Lit '' '', Repr_pairs []],
                    [], [Lit ''=== MATCH PAIRS FOR QUESTION 1 ===''],
                    [Lit ''Match pairs:'', Lit '' '', Repr_pairs []]],
                 raised = None, conn = ConnClosed, fs_after = fs\<rparr>
            \<and> exit_code (debug_question fs path) = 0)"
proof -
  have conn: "connect fs path = (Inr (Bank db), fs)"
    using db by (rule connect_bank)
  have absent: "(\<forall>r \<in> set (rows t). \<not> sql_equals (r ! i) (SqlInt 1)) \<longrightarrow>
            first_question (Bank db) = Inr (columns t, None)
            \<and> debug_question fs path =
                \<lparr>stdout = [[Lit ''=== FIRST QUESTION DATA ==='']],
                 raised = Some (TypeError ''NoneType object is not iterable''),
                 conn = ConnOpen, fs_after = fs\<rparr>
            \<and> exit_code (debug_question fs path) = 1"
  proof
    assume "\<forall>r \<in> set (rows t). \<not> sql_equals (r ! i) (SqlInt 1)"
    then have "filter (\<lambda>r. sql_equals (r ! i) (SqlInt 1)) (rows t) = []"
      by (rule filter_none)
    then have fq: "first_question (Bank db) = Inr (columns t, None)"
      using tbl i by (simp add: first_question_def)
    then have "debug_question fs path =
                \<lparr>stdout = [[Lit ''=== FIRST QUESTION DATA ==='']],
                 raised = Some (TypeError ''NoneType object is not iterable''),
                 conn = ConnOpen, fs_after = fs\<rparr>"
      using conn by (simp add: debug_question_def question_section_def)
    with fq show "first_question (Bank db) = Inr (columns t, None)
            \<and> debug_question fs path =
                \<lparr>stdout = [[Lit ''=== FIRST QUESTION DATA ==='']],
                 raised = Some (TypeError ''NoneType object is not iterable''),
                 conn = ConnOpen, fs_after = fs\<rparr>
            \<and> exit_code (debug_question fs path) = 1"
      by (simp add: exit_code_def)
  qed
  have present: "filter (\<lambda>r. sql_equals (r ! i) (SqlInt 1)) (rows t) = question # others
            \<and> load_options_for (Bank db) (SqlInt 1) = Inr []
            \<and> load_match_pairs_for (Bank db) (SqlInt 1) = Inr [] \<longrightarrow>
            debug_question fs path =
                \<lparr>stdout =
                   [[Lit ''=== FIRST QUESTION DATA ===''],
                    [Lit ''Question data:'', Lit '' '', Repr_dict (zip (columns t) question)],
                    [], [Lit ''=== OPTIONS FOR QUESTION 1 ===''],
                    [Lit ''Options:'', Lit '' '', Repr_pairs []],
                    [], [Lit ''=== MATCH PAIRS FOR QUESTION 1 ===''],
                    [Lit ''Match pairs:'', Lit '' '', Repr_pairs []]],
                 raised = None, conn = ConnClosed, fs_after = fs\<rparr>
            \<and> exit_code (debug_question fs path) = 0"
  proof (intro impI, elim conjE)
    assume row: "filter (\<lambda>r. sql_equals (r ! i) (SqlInt 1)) (rows t) = question # others"
      and opts: "load_options_for (Bank db) (SqlInt 1) = Inr []"
      and pairs: "load_match_pairs_for (Bank db) (SqlInt 1) = Inr []"
    have fq: "first_question (Bank db) = Inr (columns t, Some question)"
      using tbl i row by (simp add: first_question_def)
    have "debug_question fs path =
                \<lparr>stdout =
                   [[Lit ''=== FIRST QUESTION DATA ===''],
                    [Lit ''Question data:'', Lit '' '', Repr_dict (zip (columns t) question)],
                    [], [Lit ''=== OPTIONS FOR QUESTION 1 ===''],
                    [Lit ''Options:'', Lit '' '', Repr_pairs []],
                    [], [Lit ''=== MATCH PAIRS FOR QUESTION 1 ===''],
                    [Lit ''Match pairs:'', Lit '' '', Repr_pairs []]],
                 raised = None, conn = ConnClosed, fs_after = fs\<rparr>"
      using conn fq opts pairs
      by (simp add: debug_question_def question_section_def options_section_def
          match_pairs_section_def)
    then show "debug_question fs path =
                \<lparr>stdout =
                   [[Lit ''=== FIRST QUESTION DATA ===''],
                    [Lit ''Question data:'', Lit '' '', Repr_dict (zip (columns t) question)],
                    [], [Lit ''=== OPTIONS FOR QUESTION 1 ===''],
                    [Lit ''Options:'', Lit '' '', Repr_pairs []],
                    [], [Lit ''=== MATCH PAIRS FOR QUESTION 1 ===''],
                    [Lit ''Match pairs:'', Lit '' '', Repr_pairs []]],
                 raised = None, conn = ConnClosed, fs_after = fs\<rparr>
            \<and> exit_code (debug_question fs path) = 0"
      by (simp add: exit_code_def)
  qed
  show ?thesis using absent present by blast
qed

theorem missing_first_question_is_fatal_witness:
  "nodes (free_text_files 2) db_path = Some (DbFile (free_text_bank 2))
   \<and> from_table (Bank (free_text_bank 2)) ''questions'' = Inr (free_text_questions 2)
   \<and> column (free_text_questions 2) ''id'' = Inr 0
   \<and> rows (free_text_questions 2) =
       [[SqlInt 2, SqlText (lit ''TEXT''), SqlText (lit ''Leadership''),
         SqlText (lit ''Describe a leader.'')]]
   \<and> raised (debug_question (free_text_files 2) db_path)
       = Some (TypeError ''NoneType object is not iterable'')
   \<and> stdout (debug_question (free_text_files 2) db_path)
       = [[Lit ''=== FIRST QUESTION DATA ==='']]
   \<and> conn (debug_question (free_text_files 2) db_path) = ConnOpen
   \<and> exit_code (debug_question (free_text_files 2) db_path) = 1
   \<and> nodes (free_text_files 1) db_path = Some (DbFile (free_text_bank 1))
   \<and> from_table (Bank (free_text_bank 1)) ''questions'' = Inr (free_text_questions 1)
   \<and> column (free_text_questions 1) ''id'' = Inr 0
   \<and> load_options_for (Bank (free_text_bank 1)) (SqlInt 1) = Inr []
   \<and> load_match_pairs_for (Bank (free_text_bank 1)) (SqlInt 1) = Inr []
   \<and> raised (debug_question (free_text_files 1) db_path) = None
   \<and> conn (debug_question (free_text_files 1) db_path) = ConnClosed
   \<and> exit_code (debug_question (free_text_files 1) db_path) = 0"
proof -
  have db2: "nodes (free_text_files 2) db_path = Some (DbFile (free_text_bank 2))"
    by (simp add: free_text_files_def)
  have tbl2: "from_table (Bank (free_text_bank 2)) ''questions'' = Inr (free_text_questions 2)"
    by (simp add: from_table_def opened_def free_text_bank_def)
  have i2: "column (free_text_questions 2) ''id'' = Inr 0"
    by (simp add: column_def free_text_questions_def)
  have rows2: "rows (free_text_questions 2) =
       [[SqlInt 2, SqlText (lit ''TEXT''), SqlText (lit ''Leadership''),
         SqlText (lit ''Describe a leader.'')]]"
    by (simp add: free_text_questions_def)
  have none2: "\<forall>r \<in> set (rows (free_text_questions 2)). \<not> sql_equals (r ! 0) (SqlInt 1)"
    by (simp add: rows2 sql_equals_def)
  have db1: "nodes (free_text_files 1) db_path = Some (DbFile (free_text_bank 1))"
    by (simp add: free_text_files_def)
  have tbl1: "from_table (Bank (free_text_bank 1)) ''questions'' = Inr (free_text_questions 1)"
    by (simp add: from_table_def opened_def free_text_bank_def)
  have i1: "column (free_text_questions 1) ''id'' = Inr 0"
    by (simp add: column_def free_text_questions_def)
  have row1: "filter (\<lambda>r. sql_equals (r ! 0) (SqlInt 1)) (rows (free_text_questions 1))
      = [SqlInt 1, SqlText (lit ''TEXT''), SqlText (lit ''Leadership''),
         SqlText (lit ''Describe a leader.'')] # []"
    by (simp add: free_text_questions_def sql_equals_def)
  have opts: "load_options_for (Bank (free_text_bank 1)) (SqlInt 1) = Inr []"
    by (simp add: statement_defs bank_defs)
  have pairs: "load_match_pairs_for (Bank (free_text_bank 1)) (SqlInt 1) = Inr []"
    by (simp add: statement_defs bank_defs)
  have absent:
    "debug_question (free_text_files 2) db_path =
        \<lparr>stdout = [[Lit ''=== FIRST QUESTION DATA ==='']],
         raised = Some (TypeError ''NoneType object is not iterable''),
         conn = ConnOpen, fs_after = free_text_files 2\<rparr>
     \<and> exit_code (debug_question (free_text_files 2) db_path) = 1"
    using missing_first_question_is_fatal [OF db2 tbl2 i2] none2 by blast
  have present:
    "debug_question (free_text_files 1) db_path =
        \<lparr>stdout =
           [[Lit ''=== FIRST QUESTION DATA ===''],
            [Lit ''Question data:'', Lit '' '',
             Repr_dict (zip (columns (free_text_questions 1))
               [SqlInt 1, SqlText (lit ''TEXT''), SqlText (lit ''Leadership''),
                SqlText (lit ''Describe a leader.'')])],
            [], [Lit ''=== OPTIONS FOR QUESTION 1 ===''],
            [Lit ''Options:'', Lit '' '', Repr_pairs []],
            [], [Lit ''=== MATCH PAIRS FOR QUESTION 1 ===''],
            [Lit ''Match pairs:'', Lit '' '', Repr_pairs []]],
         raised = None, conn = ConnClosed, fs_after = free_text_files 1\<rparr>
     \<and> exit_code (debug_question (free_text_files 1) db_path) = 0"
    using missing_first_question_is_fatal [OF db1 tbl1 i1] row1 opts pairs by blast
  note run2 = absent [THEN conjunct1] and e2 = absent [THEN conjunct2]
  note run1 = present [THEN conjunct1] and e1 = present [THEN conjunct2]
  have r2: "raised (debug_question (free_text_files 2) db_path)
       = Some (TypeError ''NoneType object is not iterable'')"
    and o2: "stdout (debug_question (free_text_files 2) db_path)
       = [[Lit ''=== FIRST QUESTION DATA ==='']]"
    and c2: "conn (debug_question (free_text_files 2) db_path) = ConnOpen"
    by (simp_all add: run2)
  have r1: "raised (debug_question (free_text_files 1) db_path) = None"
    and c1: "conn (debug_question (free_text_files 1) db_path) = ConnClosed"
    by (simp_all add: run1)
  show ?thesis
    using db2 tbl2 i2 rows2 r2 o2 c2 e2 db1 tbl1 i1 opts pairs r1 c1 e1 by blast
qed


end
